theory Spec2Isabelle
  imports Complex_Main
begin

section \<open>The two command-line front-ends of Gambit\<close>

text \<open>
  The development embeds the two programs of the repository:
  \<^item> \<^verbatim>\<open>src/tools/enummixed/enummixed.cc\<close>: enumeration of the extreme equilibria of a
    two-player game (\<open>PrintCliques\<close>, \<open>PrintBanner\<close>, \<open>PrintHelp\<close>, \<open>main\<close>);
  \<^item> \<^verbatim>\<open>src/tools/gt/nfgipa.cc\<close>: the Gametracer iterated polymatrix approximation
    (\<open>PrintBanner\<close>, \<open>PrintHelp\<close>, \<open>main\<close>).

  Both \<open>main\<close> functions are modelled as functions from the argument vector to the
  sequence of observable events and the way the process ends. Everything the two files
  call but do not define (\<open>atoi\<close>, opening a file, \<open>ReadGame\<close>, the solver classes, the
  \<open>VERSION\<close> macro) is a field of the environment record below.
\<close>

subsection \<open>C strings and the argument vector\<close>

text \<open>
  A C string is a \<open>string\<close>; reading the position just behind its last character gives
  the terminating NUL. \<open>argv[i]\<close> for \<open>i < argc\<close> is a string and \<open>argv[argc]\<close> is the null
  pointer, which is \<open>None\<close> here. The model never reads beyond \<open>argv[argc]\<close>.
\<close>

definition char_at :: "string \<Rightarrow> nat \<Rightarrow> char" where
  "char_at s k = (if k < length s then s ! k else CHR 0x00)"

definition argv_at :: "string list \<Rightarrow> nat \<Rightarrow> string option" where
  "argv_at argv i = (if i < length argv then Some (argv ! i) else None)"

text \<open>\<open>isprint\<close> of the C locale: the characters from space to tilde.\<close>

definition isprint :: "char \<Rightarrow> bool" where
  "isprint c = (32 \<le> (of_char c :: nat) \<and> (of_char c :: nat) \<le> 126)"

definition endl :: string where
  "endl = [CHR 0x0A]"

subsection \<open>Events, exceptions and the ways a run ends\<close>

text \<open>
  An exception of the C++ code is either a \<open>std::runtime_error\<close> (or a class derived from
  it) with its \<open>what()\<close> text, or of some other class; only the first kind is caught by the
  handler at the end of \<open>main\<close>.
\<close>

datatype exn = RuntimeError string | OtherException

datatype istream = Cin | FileStream string

text \<open>
  The observable events of a run: text written to \<open>std::cerr\<close>, an attempt to open a
  file, a call of \<open>perror\<close>, a call of \<open>ReadGame\<close> on a stream, and a call of
  \<open>Render(profile, label)\<close> on the renderer writing to \<open>std::cout\<close> (the rational renderer,
  or the floating-point renderer built with a number of decimals).
\<close>

datatype ('r, 'd) event =
    Stderr string
  | Open string
  | Perror string
  | ReadFrom istream
  | RenderRational 'r string
  | RenderDouble int 'd string

text \<open>
  A run ends with an exit status (\<open>return n\<close> from \<open>main\<close> or \<open>exit(n)\<close>), by \<open>abort()\<close>,
  by the call \<open>atoi(NULL)\<close> (undefined behaviour), by a read of \<open>argv[-1]\<close> (undefined
  behaviour, possible only when \<open>argc\<close> is 0), or by an exception that leaves \<open>main\<close>.
\<close>

datatype status = ExitCode int | Abort | AtoiNull | BadRead | Uncaught

datatype 'o parsed = Parsed 'o | Halted "string list" status

subsection \<open>The environment: what the two files call but do not define\<close>

text \<open>
  \<^item> \<open>VERSION\<close>: the macro spliced into the banners;
  \<^item> \<open>atoi\<close>: the C library function, applied to a non-null string;
  \<^item> \<open>is_open\<close>: whether \<open>file_stream.open(path)\<close> succeeds;
  \<^item> \<open>ReadGame\<close>: the game-file reader, which returns a game or throws;
  \<^item> \<open>Solve_lrs\<close>: \<open>EnumMixedLrsStrategySolver::Solve\<close>, given the rational renderer: the
    \<open>Render\<close> calls it makes, and the exception it throws, if any;
  \<^item> \<open>SolveDetailed_double\<close>, \<open>SolveDetailed_Rational\<close>:
    \<open>EnumMixedStrategySolver<T>::SolveDetailed\<close>: the \<open>Render\<close> calls it makes, and either the
    exception it throws or what \<open>GetCliques()\<close> returns on its solution;
  \<^item> \<open>Solve_IPA\<close>: \<open>NashIPAStrategySolver::Solve\<close>: the \<open>Render\<close> calls it makes and the
    exception it throws, if any (its return value is discarded by the caller).
\<close>

record ('g, 'r, 'd) env =
  VERSION :: string
  atoi :: "string \<Rightarrow> int"
  is_open :: "string \<Rightarrow> bool"
  ReadGame :: "istream \<Rightarrow> exn + 'g"
  Solve_lrs :: "'g \<Rightarrow> ('r \<times> string) list \<times> exn option"
  SolveDetailed_double :: "'g \<Rightarrow> ('d \<times> string) list \<times> (exn + 'd list list)"
  SolveDetailed_Rational :: "'g \<Rightarrow> ('r \<times> string) list \<times> (exn + 'r list list)"
  Solve_IPA :: "'g \<Rightarrow> ('d \<times> string) list \<times> exn option"

subsection \<open>enummixed: \<open>PrintCliques\<close>\<close>

text \<open>
  \<open>lexical_cast<std::string>\<close> of a non-negative \<open>int\<close>: its decimal digits. The loop
  counters of \<open>PrintCliques\<close> start at 1 and only grow, so they are natural numbers here.
\<close>

definition digit_char :: "nat \<Rightarrow> char" where
  "digit_char d = ''0123456789'' ! d"

fun lexical_cast :: "nat \<Rightarrow> string" where
  "lexical_cast n =
     (if n < 10 then [digit_char n] else lexical_cast (n div 10) @ [digit_char (n mod 10)])"

text \<open>
  Gambit's \<open>List\<close> is indexed from 1: \<open>p_cliques[cl]\<close> is the element at position \<open>cl - 1\<close>
  of the HOL list. Both loops keep their index within \<open>1..size()\<close>, so no index is ever
  out of range. Each call of \<open>Render\<close> is recorded as the pair of its arguments.
\<close>

function PrintCliques_inner :: "'p list \<Rightarrow> nat \<Rightarrow> nat \<Rightarrow> ('p \<times> string) list" where
  "PrintCliques_inner clique cl i =
     (if i \<le> length clique
      then (clique ! (i - 1), ''convex-'' @ lexical_cast cl) # PrintCliques_inner clique cl (i + 1)
      else [])"
  by pat_completeness auto
termination
  by (relation "measure (\<lambda>(clique, cl, i). Suc (length clique) - i)") auto

function PrintCliques_outer :: "'p list list \<Rightarrow> nat \<Rightarrow> ('p \<times> string) list" where
  "PrintCliques_outer p_cliques cl =
     (if cl \<le> length p_cliques
      then PrintCliques_inner (p_cliques ! (cl - 1)) cl 1 @ PrintCliques_outer p_cliques (cl + 1)
      else [])"
  by pat_completeness auto
termination
  by (relation "measure (\<lambda>(p_cliques, cl). Suc (length p_cliques) - cl)") auto

definition PrintCliques :: "'p list list \<Rightarrow> ('p \<times> string) list" where
  "PrintCliques p_cliques = PrintCliques_outer p_cliques 1"

subsection \<open>enummixed: \<open>PrintBanner\<close> and \<open>PrintHelp\<close>\<close>

text \<open>Both functions are only ever called with \<open>std::cerr\<close>; they return the text written.\<close>

definition PrintBanner :: "string \<Rightarrow> string" where
  "PrintBanner version =
     ''Compute Nash equilibria by enumerating extreme points'' @ endl @
     ''Gambit version '' @ version @ '', Copyright (C) 1994-2016, The Gambit Project'' @ endl @
     ''Enumeration code based on lrslib 6.2,'' @ endl @
     ''Copyright (C) 1995-2016 by David Avis (avis@cs.mcgill.ca)'' @ endl @
     ''This is free software, distributed under the GNU GPL'' @ endl @ endl"

text \<open>\<open>PrintHelp\<close> writes the banner and the usage text and then calls \<open>exit(1)\<close>.\<close>

definition PrintHelp_text :: "string \<Rightarrow> string" where
  "PrintHelp_text progname =
     ''Usage: '' @ progname @ '' [OPTIONS] [file]'' @ endl @
     ''If file is not specified, attempts to read game from standard input.'' @ endl @
     ''With no options, reports all Nash equilibria found.'' @ endl @ endl @
     ''Options:'' @ endl @
     ''  -d DECIMALS      compute using floating-point arithmetic;'' @ endl @
     ''                   display results with DECIMALS digits'' @ endl @
     ''  -D               don't eliminate dominated strategies first'' @ endl @
     ''  -L               use lrslib for enumeration (experimental!)'' @ endl @
     ''  -c               output connectedness information'' @ endl @
     ''  -h, --help       print this help message'' @ endl @
     ''  -q               quiet mode (suppresses banner)'' @ endl @
     ''  -v, --version    print version information'' @ endl"

definition PrintHelp :: "string \<Rightarrow> string \<Rightarrow> 'o parsed" where
  "PrintHelp version progname =
     Halted [PrintBanner version, PrintHelp_text progname] (ExitCode 1)"

text \<open>The two messages of the \<open>case '?'\<close> branch, shared by both programs.\<close>

definition unknown_option :: "string \<Rightarrow> char \<Rightarrow> string" where
  "unknown_option argv0 optopt =
     (if isprint optopt
      then argv0 @ '': Unknown option `-'' @ [optopt] @ [CHR 0x27] @ ''.'' @ endl
      else argv0 @ '': Unknown option character `'' @ [CHR 0x5C] @ ''x'' @ [optopt] @ ''`.'' @ endl)"

subsection \<open>enummixed: the option loop of \<open>main\<close>\<close>

record options =
  useFloat :: bool
  uselrs :: bool
  quiet :: bool
  eliminate :: bool
  showConnect :: bool
  numDecimals :: int

definition initial_options :: options where
  "initial_options =
     \<lparr>useFloat = False, uselrs = False, quiet = False, eliminate = True,
      showConnect = False, numDecimals = 6\<rparr>"

text \<open>
  The \<open>switch (optopt)\<close> of one loop iteration, in the order of its \<open>case\<close> labels.
  \<open>optarg\<close> is \<open>argv[i + 1]\<close> and \<open>optopt\<close> is \<open>argv[i][1]\<close>.
\<close>

definition enummixed_switch ::
  "('g, 'r, 'd) env \<Rightarrow> string \<Rightarrow> string option \<Rightarrow> char \<Rightarrow> options \<Rightarrow> options parsed" where
  "enummixed_switch E argv0 optarg optopt st =
     (if optopt = CHR ''v'' then Halted [PrintBanner (VERSION E)] (ExitCode 1)
      else if optopt = CHR ''d'' then
        (case optarg of
           None \<Rightarrow> Halted [] AtoiNull
         | Some a \<Rightarrow> Parsed (st\<lparr>useFloat := True, numDecimals := atoi E a\<rparr>))
      else if optopt = CHR ''D'' then Parsed (st\<lparr>eliminate := False\<rparr>)
      else if optopt = CHR ''L'' then Parsed (st\<lparr>uselrs := True\<rparr>)
      else if optopt = CHR ''h'' then PrintHelp (VERSION E) argv0
      else if optopt = CHR ''c'' then Parsed (st\<lparr>showConnect := True\<rparr>)
      else if optopt = CHR ''S'' then Parsed st
      else if optopt = CHR ''q'' then Parsed (st\<lparr>quiet := True\<rparr>)
      else if optopt = CHR ''?'' then Halted [unknown_option argv0 optopt] (ExitCode 1)
      else Halted [] Abort)"

text \<open>The loop \<open>for (int i = 1; i < argc; i++)\<close>, started at \<open>i\<close> with the flags \<open>st\<close>.\<close>

function enummixed_options ::
  "('g, 'r, 'd) env \<Rightarrow> string list \<Rightarrow> nat \<Rightarrow> options \<Rightarrow> options parsed" where
  "enummixed_options E argv i st =
     (if i < length argv then
        (if char_at (argv ! i) 0 \<noteq> CHR ''-'' then enummixed_options E argv (i + 1) st
         else
           (case enummixed_switch E (argv ! 0) (argv_at argv (i + 1)) (char_at (argv ! i) 1) st of
              Parsed st' \<Rightarrow> enummixed_options E argv (i + 1) st'
            | Halted out how \<Rightarrow> Halted out how))
      else Parsed st)"
  by pat_completeness auto
termination
  by (relation "measure (\<lambda>(E, argv, i, st). length argv - i)") auto

subsection \<open>Opening the input (the same code in both programs)\<close>

text \<open>
  \<open>optind\<close> is the local variable set to \<open>argc - 1\<close> before the option loop; the loop never
  changes it. \<open>input_stream\<close> starts as \<open>&std::cin\<close> and is redirected to the file stream
  when the file could be opened; otherwise \<open>perror\<close> is called and the run ends by \<open>exit(1)\<close>.
\<close>

definition open_input ::
  "('g, 'r, 'd) env \<Rightarrow> string list \<Rightarrow> (('r, 'd) event list \<times> status) + (('r, 'd) event list \<times> istream)" where
  "open_input E argv =
     (let argc = int (length argv); optind = argc - 1 in
      if optind < argc then
        (if optind < 0 then Inl ([], BadRead)
         else
           (let path = argv ! nat optind in
            if \<not> is_open E path
            then Inl ([Open path, Perror (argv ! 0 @ '': '' @ path)], ExitCode 1)
            else Inr ([Open path], FileStream path)))
      else Inr ([], Cin))"

subsection \<open>The \<open>try\<close> block and its handler\<close>

text \<open>
  \<open>thrown evs e\<close> is what happens when the exception \<open>e\<close> is thrown inside the \<open>try\<close> block
  after the events \<open>evs\<close>: the handler \<open>catch (std::runtime_error &e)\<close> writes
  \<open>"Error: " << e.what() << std::endl\<close> and returns 1; any other exception leaves \<open>main\<close>.
\<close>

fun thrown :: "('r, 'd) event list \<Rightarrow> exn \<Rightarrow> ('r, 'd) event list \<times> status" where
  "thrown evs (RuntimeError what) = (evs @ [Stderr (''Error: '' @ what @ endl)], ExitCode 1)"
| "thrown evs OtherException = (evs, Uncaught)"

definition render_Rational :: "'r \<times> string \<Rightarrow> ('r, 'd) event" where
  "render_Rational c = RenderRational (fst c) (snd c)"

definition render_double :: "int \<Rightarrow> 'd \<times> string \<Rightarrow> ('r, 'd) event" where
  "render_double decimals c = RenderDouble decimals (fst c) (snd c)"

text \<open>The \<open>try\<close> block of enummixed's \<open>main\<close>, with the flags \<open>st\<close> left by the option loop.\<close>

definition enummixed_try ::
  "('g, 'r, 'd) env \<Rightarrow> options \<Rightarrow> istream \<Rightarrow> ('r, 'd) event list \<times> status" where
  "enummixed_try E st input_stream =
     (case ReadGame E input_stream of
        Inl e \<Rightarrow> thrown [ReadFrom input_stream] e
      | Inr game \<Rightarrow>
          (if uselrs st then
             (case Solve_lrs E game of
                (out, Some e) \<Rightarrow> thrown (ReadFrom input_stream # map render_Rational out) e
              | (out, None) \<Rightarrow> (ReadFrom input_stream # map render_Rational out, ExitCode 0))
           else if useFloat st then
             (case SolveDetailed_double E game of
                (out, Inl e) \<Rightarrow>
                  thrown (ReadFrom input_stream # map (render_double (numDecimals st)) out) e
              | (out, Inr cliques) \<Rightarrow>
                  (ReadFrom input_stream # map (render_double (numDecimals st)) out @
                     (if showConnect st
                      then map (render_double (numDecimals st)) (PrintCliques cliques) else []),
                   ExitCode 0))
           else
             (case SolveDetailed_Rational E game of
                (out, Inl e) \<Rightarrow> thrown (ReadFrom input_stream # map render_Rational out) e
              | (out, Inr cliques) \<Rightarrow>
                  (ReadFrom input_stream # map render_Rational out @
                     (if showConnect st then map render_Rational (PrintCliques cliques) else []),
                   ExitCode 0))))"

subsection \<open>enummixed: \<open>main\<close>\<close>

definition enummixed_main ::
  "('g, 'r, 'd) env \<Rightarrow> string list \<Rightarrow> ('r, 'd) event list \<times> status" where
  "enummixed_main E argv =
     (case enummixed_options E argv 1 initial_options of
        Halted out how \<Rightarrow> (map Stderr out, how)
      | Parsed st \<Rightarrow>
          (let banner = (if \<not> quiet st then [Stderr (PrintBanner (VERSION E))] else []) in
           case open_input E argv of
             Inl (evs, how) \<Rightarrow> (banner @ evs, how)
           | Inr (evs, input_stream) \<Rightarrow>
               (case enummixed_try E st input_stream of
                  (evs', how) \<Rightarrow> (banner @ evs @ evs', how))))"

subsection \<open>nfgipa: \<open>PrintBanner\<close>, \<open>PrintHelp\<close> and the option loop\<close>

definition ipa_PrintBanner :: "string \<Rightarrow> string" where
  "ipa_PrintBanner version =
     ''Compute Nash equilibria using iterated polymatrix approximation'' @ endl @
     ''Gametracer version 0.2, Copyright (C) 2002, Ben Blum and Christian Shelton'' @ endl @
     ''Gambit version '' @ version @ '', Copyright (C) 1994-2016, The Gambit Project'' @ endl @
     ''This is free software, distributed under the GNU GPL'' @ endl @ endl"

definition ipa_PrintHelp_text :: "string \<Rightarrow> string" where
  "ipa_PrintHelp_text progname =
     ''Usage: '' @ progname @ '' [OPTIONS] [file]'' @ endl @
     ''If file is not specified, attempts to read game from standard input.'' @ endl @
     ''Options:'' @ endl @
     ''  -d DECIMALS      show equilibria as floating point with DECIMALS digits'' @ endl @
     ''  -h, --help       print this help message'' @ endl @
     ''  -q               quiet mode (suppresses banner)'' @ endl @
     ''  -V, --verbose    verbose mode (shows intermediate output)'' @ endl @
     ''  -v, --version    print version information'' @ endl"

definition ipa_PrintHelp :: "string \<Rightarrow> string \<Rightarrow> 'o parsed" where
  "ipa_PrintHelp version progname =
     Halted [ipa_PrintBanner version, ipa_PrintHelp_text progname] (ExitCode 1)"

record ipa_options =
  ipa_quiet :: bool
  ipa_verbose :: bool
  ipa_numDecimals :: int

definition ipa_initial_options :: ipa_options where
  "ipa_initial_options = \<lparr>ipa_quiet = False, ipa_verbose = False, ipa_numDecimals = 6\<rparr>"

definition nfgipa_switch ::
  "('g, 'r, 'd) env \<Rightarrow> string \<Rightarrow> string option \<Rightarrow> char \<Rightarrow> ipa_options \<Rightarrow> ipa_options parsed" where
  "nfgipa_switch E argv0 optarg optopt st =
     (if optopt = CHR ''v'' then Halted [ipa_PrintBanner (VERSION E)] (ExitCode 1)
      else if optopt = CHR ''q'' then Parsed (st\<lparr>ipa_quiet := True\<rparr>)
      else if optopt = CHR ''V'' then Parsed (st\<lparr>ipa_verbose := True\<rparr>)
      else if optopt = CHR ''d'' then
        (case optarg of
           None \<Rightarrow> Halted [] AtoiNull
         | Some a \<Rightarrow> Parsed (st\<lparr>ipa_numDecimals := atoi E a\<rparr>))
      else if optopt = CHR ''S'' then Parsed st
      else if optopt = CHR ''h'' then ipa_PrintHelp (VERSION E) argv0
      else if optopt = CHR ''?'' then Halted [unknown_option argv0 optopt] (ExitCode 1)
      else Halted [] Abort)"

function nfgipa_options ::
  "('g, 'r, 'd) env \<Rightarrow> string list \<Rightarrow> nat \<Rightarrow> ipa_options \<Rightarrow> ipa_options parsed" where
  "nfgipa_options E argv i st =
     (if i < length argv then
        (if char_at (argv ! i) 0 \<noteq> CHR ''-'' then nfgipa_options E argv (i + 1) st
         else
           (case nfgipa_switch E (argv ! 0) (argv_at argv (i + 1)) (char_at (argv ! i) 1) st of
              Parsed st' \<Rightarrow> nfgipa_options E argv (i + 1) st'
            | Halted out how \<Rightarrow> Halted out how))
      else Parsed st)"
  by pat_completeness auto
termination
  by (relation "measure (\<lambda>(E, argv, i, st). length argv - i)") auto

subsection \<open>nfgipa: the \<open>try\<close> block and \<open>main\<close>\<close>

definition nfgipa_try ::
  "('g, 'r, 'd) env \<Rightarrow> ipa_options \<Rightarrow> istream \<Rightarrow> ('r, 'd) event list \<times> status" where
  "nfgipa_try E st input_stream =
     (case ReadGame E input_stream of
        Inl e \<Rightarrow> thrown [ReadFrom input_stream] e
      | Inr game \<Rightarrow>
          (case Solve_IPA E game of
             (out, Some e) \<Rightarrow>
               thrown (ReadFrom input_stream # map (render_double (ipa_numDecimals st)) out) e
           | (out, None) \<Rightarrow>
               (ReadFrom input_stream # map (render_double (ipa_numDecimals st)) out, ExitCode 0)))"

definition nfgipa_main ::
  "('g, 'r, 'd) env \<Rightarrow> string list \<Rightarrow> ('r, 'd) event list \<times> status" where
  "nfgipa_main E argv =
     (case nfgipa_options E argv 1 ipa_initial_options of
        Halted out how \<Rightarrow> (map Stderr out, how)
      | Parsed st \<Rightarrow>
          (let banner = (if \<not> ipa_quiet st then [Stderr (ipa_PrintBanner (VERSION E))] else []) in
           case open_input E argv of
             Inl (evs, how) \<Rightarrow> (banner @ evs, how)
           | Inr (evs, input_stream) \<Rightarrow>
               (case nfgipa_try E st input_stream of
                  (evs', how) \<Rightarrow> (banner @ evs @ evs', how))))"

section \<open>Notions used to state the properties\<close>

subsection \<open>The labelled clique groups\<close>

text \<open>
  The output format as the specification words it: the cliques in partition order,
  numbered from 1, each profile of clique \<open>cl\<close> paired with the label \<open>convex-cl\<close>, the
  profiles of one clique in their stored order. \<open>PrintCliques\<close> is compared with it below.
\<close>

definition convex_groups :: "'p list list \<Rightarrow> ('p \<times> string) list" where
  "convex_groups cliques =
     concat (map (\<lambda>(cl, clique). map (\<lambda>p. (p, ''convex-'' @ lexical_cast cl)) clique)
                 (zip [1..<Suc (length cliques)] cliques))"

text \<open>The environment in which every solution of the exact engine has an empty partition.\<close>

definition drop_cliques :: "'o \<times> (exn + 'p list list) \<Rightarrow> 'o \<times> (exn + 'p list list)" where
  "drop_cliques r = (fst r, case snd r of Inl e \<Rightarrow> Inl e | Inr cliques \<Rightarrow> Inr [])"

definition no_cliques :: "('g, 'r, 'd) env \<Rightarrow> ('g, 'r, 'd) env" where
  "no_cliques E =
     E\<lparr>SolveDetailed_double := (\<lambda>game. drop_cliques (SolveDetailed_double E game)),
       SolveDetailed_Rational := (\<lambda>game. drop_cliques (SolveDetailed_Rational E game))\<rparr>"

subsection \<open>Options by their first two characters\<close>

definition is_option :: "char \<Rightarrow> string \<Rightarrow> bool" where
  "is_option c a = (char_at a 0 = CHR ''-'' \<and> char_at a 1 = c)"

subsection \<open>The failure signalled inside the \<open>try\<close> block\<close>

text \<open>
  The exception thrown by the calls of the \<open>try\<close> block, if any: by \<open>ReadGame\<close>, or else by
  the one solver that the flags select.
\<close>

definition enummixed_signalled :: "('g, 'r, 'd) env \<Rightarrow> options \<Rightarrow> istream \<Rightarrow> exn option" where
  "enummixed_signalled E st input_stream =
     (case ReadGame E input_stream of
        Inl e \<Rightarrow> Some e
      | Inr game \<Rightarrow>
          (if uselrs st then snd (Solve_lrs E game)
           else if useFloat st then
             (case snd (SolveDetailed_double E game) of Inl e \<Rightarrow> Some e | Inr cliques \<Rightarrow> None)
           else
             (case snd (SolveDetailed_Rational E game) of Inl e \<Rightarrow> Some e | Inr cliques \<Rightarrow> None)))"

definition nfgipa_signalled :: "('g, 'r, 'd) env \<Rightarrow> istream \<Rightarrow> exn option" where
  "nfgipa_signalled E input_stream =
     (case ReadGame E input_stream of
        Inl e \<Rightarrow> Some e
      | Inr game \<Rightarrow> snd (Solve_IPA E game))"

subsection \<open>The output contract of the two enumeration engines\<close>


subsection \<open>An example environment\<close>

text \<open>
  A concrete environment on which the two programs are run below. One file,
  \<open>game.nfg\<close>, can be opened and holds a game; a second one, \<open>broken.nfg\<close>, can be opened
  and makes the reader throw. Both enumeration engines report the same three profiles for
  the game, and the exact engine puts each of them into a clique of its own.
\<close>

definition example_profiles :: "rat list list list" where
  "example_profiles = [[[1, 0], [1, 0]], [[0, 1], [0, 1]], [[3 / 5, 2 / 5], [2 / 5, 3 / 5]]]"

definition example_env :: "(string, rat list list, rat list list) env" where
  "example_env =
     \<lparr>VERSION = ''16.0.0'',
      atoi = (\<lambda>s. if s = ''3'' then 3 else 0),
      is_open = (\<lambda>path. path = ''game.nfg'' \<or> path = ''broken.nfg''),
      ReadGame = (\<lambda>input_stream.
         if input_stream = FileStream ''game.nfg'' then Inr ''coordination''
         else Inl (RuntimeError ''not a game file'')),
      Solve_lrs = (\<lambda>game. (map (\<lambda>p. (p, ''NE'')) example_profiles, None)),
      SolveDetailed_double = (\<lambda>game.
         (map (\<lambda>p. (p, ''NE'')) example_profiles, Inr (map (\<lambda>p. [p]) example_profiles))),
      SolveDetailed_Rational = (\<lambda>game.
         (map (\<lambda>p. (p, ''NE'')) example_profiles, Inr (map (\<lambda>p. [p]) example_profiles))),
      Solve_IPA = (\<lambda>game. ([([[1, 0], [1, 0], [1, 0]], ''NE'')], None))\<rparr>"

section \<open>The equilibria of a two-player game, after the specification\<close>

text \<open>
  The enumeration itself (\<open>EnumMixedStrategySolver<T>::SolveDetailed\<close>, declared in
  \<^verbatim>\<open>gambit/nash/enummixed.h\<close>) is not among the sources; the programs above only call it.
  The definitions of this section follow the words of the specification (its data model
  and the contract of the Equilibrium Pairer), for games of two players over the
  rationals.
\<close>

text \<open>
  Modelled from the spec: the Game Model, which is missing from the sources. A
  two-player game is a pair of payoff matrices; entry \<open>(i, j)\<close> of the first is the payoff
  of player 1, and of the second the payoff of player 2, when player 1 plays strategy \<open>i\<close>
  and player 2 plays strategy \<open>j\<close>.
\<close>

type_synonym bimatrix = "rat list list \<times> rat list list"

text \<open>Modelled from the spec: the number of pure strategies of player 1 (Game Model, missing).\<close>

definition strategies_1 :: "bimatrix \<Rightarrow> nat" where
  "strategies_1 G = length (fst G)"

text \<open>Modelled from the spec: the number of pure strategies of player 2 (Game Model, missing).\<close>

definition strategies_2 :: "bimatrix \<Rightarrow> nat" where
  "strategies_2 G = (case fst G of [] \<Rightarrow> 0 | row # rows \<Rightarrow> length row)"

text \<open>
  Modelled from the spec: the payoff function of the missing Game Model, extended to a
  mixed strategy of the opponent: what pure strategy \<open>i\<close> pays player 1 against the
  weights \<open>y\<close> of player 2.
\<close>

definition expected_payoff_1 :: "bimatrix \<Rightarrow> rat list \<Rightarrow> nat \<Rightarrow> rat" where
  "expected_payoff_1 G y i = sum_list (map (\<lambda>j. fst G ! i ! j * y ! j) [0..<strategies_2 G])"

text \<open>
  Modelled from the spec: the payoff function of the missing Game Model: what pure
  strategy \<open>j\<close> pays player 2 against the weights \<open>x\<close> of player 1.
\<close>

definition expected_payoff_2 :: "bimatrix \<Rightarrow> rat list \<Rightarrow> nat \<Rightarrow> rat" where
  "expected_payoff_2 G x j = sum_list (map (\<lambda>i. x ! i * snd G ! i ! j) [0..<strategies_1 G])"

text \<open>
  Modelled from the spec: one player's part of a Mixed Strategy Profile (missing data
  model): non-negative weights that sum to 1, one for each pure strategy.
\<close>

definition is_distribution :: "nat \<Rightarrow> rat list \<Rightarrow> bool" where
  "is_distribution n w = (length w = n \<and> list_all (\<lambda>v. 0 \<le> v) w \<and> sum_list w = 1)"

text \<open>
  Modelled from the spec: a best response of player 1 (missing Equilibrium Pairer): no
  pure strategy pays more against \<open>y\<close>.
\<close>

definition best_response_1 :: "bimatrix \<Rightarrow> rat list \<Rightarrow> nat \<Rightarrow> bool" where
  "best_response_1 G y i =
     list_all (\<lambda>k. expected_payoff_1 G y k \<le> expected_payoff_1 G y i) [0..<strategies_1 G]"

text \<open>Modelled from the spec: a best response of player 2 (missing Equilibrium Pairer).\<close>

definition best_response_2 :: "bimatrix \<Rightarrow> rat list \<Rightarrow> nat \<Rightarrow> bool" where
  "best_response_2 G x j =
     list_all (\<lambda>k. expected_payoff_2 G x k \<le> expected_payoff_2 G x j) [0..<strategies_2 G]"

text \<open>
  Modelled from the spec: full complementarity (missing Equilibrium Pairer): a strategy
  is played with positive probability only if it is a best response.
\<close>

definition full_complementarity :: "bimatrix \<Rightarrow> rat list \<Rightarrow> rat list \<Rightarrow> bool" where
  "full_complementarity G x y =
     (list_all (\<lambda>i. 0 < x ! i \<longrightarrow> best_response_1 G y i) [0..<strategies_1 G] \<and>
      list_all (\<lambda>j. 0 < y ! j \<longrightarrow> best_response_2 G x j) [0..<strategies_2 G])"

text \<open>
  Modelled from the spec: a confirmed equilibrium (missing Equilibrium Pairer): a mixed
  strategy profile of the game with full complementarity.
\<close>

definition is_equilibrium :: "bimatrix \<Rightarrow> rat list \<times> rat list \<Rightarrow> bool" where
  "is_equilibrium G p =
     (is_distribution (strategies_1 G) (fst p) \<and> is_distribution (strategies_2 G) (snd p) \<and>
      full_complementarity G (fst p) (snd p))"

text \<open>
  Modelled from the spec: what the missing enumeration reports for a game, as a set:
  the specification has it find all equilibria of a two-player game, each with full
  complementarity. (This is for a non-degenerate game such as the scenario's, which has
  finitely many equilibria; for a face of equilibria the specification reports one
  representative only.)
\<close>

definition reported_equilibria :: "bimatrix \<Rightarrow> (rat list \<times> rat list) set" where
  "reported_equilibria G = {p. is_equilibrium G p}"

text \<open>
  Modelled from the spec: the game of the specification's scenario, as the missing
  reader would hand it over: the payoff matrices \<open>[[3,0],[0,2]]\<close> of player 1 and
  \<open>[[2,0],[0,3]]\<close> of player 2.
\<close>

definition coordination_game :: bimatrix where
  "coordination_game = ([[3, 0], [0, 2]], [[2, 0], [0, 3]])"

section \<open>Auxiliary facts\<close>

declare enummixed_options.simps [simp del]
declare nfgipa_options.simps [simp del]
declare PrintCliques_inner.simps [simp del]
declare PrintCliques_outer.simps [simp del]
declare lexical_cast.simps [simp del]

subsection \<open>One iteration of the option loops\<close>

lemma enummixed_options_end:
  "\<not> i < length argv \<Longrightarrow> enummixed_options E argv i st = Parsed st"
  by (subst enummixed_options.simps) simp

lemma enummixed_options_skip:
  "i < length argv \<Longrightarrow> char_at (argv ! i) 0 \<noteq> CHR ''-'' \<Longrightarrow>
     enummixed_options E argv i st = enummixed_options E argv (Suc i) st"
  by (subst enummixed_options.simps) simp

lemma enummixed_options_switch:
  "i < length argv \<Longrightarrow> char_at (argv ! i) 0 = CHR ''-'' \<Longrightarrow>
     enummixed_options E argv i st =
       (case enummixed_switch E (argv ! 0) (argv_at argv (Suc i)) (char_at (argv ! i) 1) st of
          Parsed st' \<Rightarrow> enummixed_options E argv (Suc i) st'
        | Halted out how \<Rightarrow> Halted out how)"
  by (subst enummixed_options.simps) (simp split: parsed.splits)

lemma nfgipa_options_end:
  "\<not> i < length argv \<Longrightarrow> nfgipa_options E argv i st = Parsed st"
  by (subst nfgipa_options.simps) simp

lemma nfgipa_options_skip:
  "i < length argv \<Longrightarrow> char_at (argv ! i) 0 \<noteq> CHR ''-'' \<Longrightarrow>
     nfgipa_options E argv i st = nfgipa_options E argv (Suc i) st"
  by (subst nfgipa_options.simps) simp

lemma nfgipa_options_switch:
  "i < length argv \<Longrightarrow> char_at (argv ! i) 0 = CHR ''-'' \<Longrightarrow>
     nfgipa_options E argv i st =
       (case nfgipa_switch E (argv ! 0) (argv_at argv (Suc i)) (char_at (argv ! i) 1) st of
          Parsed st' \<Rightarrow> nfgipa_options E argv (Suc i) st'
        | Halted out how \<Rightarrow> Halted out how)"
  by (subst nfgipa_options.simps) (simp split: parsed.splits)

lemmas option_loop_simps =
  enummixed_options_end enummixed_options_skip enummixed_options_switch
  nfgipa_options_end nfgipa_options_skip nfgipa_options_switch
  char_at_def argv_at_def

subsection \<open>Runs of the option loops\<close>

lemma enummixed_options_skip_to:
  "k \<le> i \<Longrightarrow> i \<le> length argv \<Longrightarrow>
   (\<And>j. k \<le> j \<Longrightarrow> j < i \<Longrightarrow> char_at (argv ! j) 0 \<noteq> CHR ''-'') \<Longrightarrow>
     enummixed_options E argv k st = enummixed_options E argv i st"
proof (induction "i - k" arbitrary: k)
  case 0
  then show ?case by simp
next
  case (Suc n)
  then have lt: "k < i" by simp
  with Suc.prems have "enummixed_options E argv k st = enummixed_options E argv (Suc k) st"
    by (simp add: enummixed_options_skip)
  moreover have "enummixed_options E argv (Suc k) st = enummixed_options E argv i st"
    using Suc.hyps(1) [of "Suc k"] Suc.hyps(2) Suc.prems lt by simp
  ultimately show ?case by simp
qed

lemma nfgipa_options_skip_to:
  "k \<le> i \<Longrightarrow> i \<le> length argv \<Longrightarrow>
   (\<And>j. k \<le> j \<Longrightarrow> j < i \<Longrightarrow> char_at (argv ! j) 0 \<noteq> CHR ''-'') \<Longrightarrow>
     nfgipa_options E argv k st = nfgipa_options E argv i st"
proof (induction "i - k" arbitrary: k)
  case 0
  then show ?case by simp
next
  case (Suc n)
  then have lt: "k < i" by simp
  with Suc.prems have "nfgipa_options E argv k st = nfgipa_options E argv (Suc k) st"
    by (simp add: nfgipa_options_skip)
  moreover have "nfgipa_options E argv (Suc k) st = nfgipa_options E argv i st"
    using Suc.hyps(1) [of "Suc k"] Suc.hyps(2) Suc.prems lt by simp
  ultimately show ?case by simp
qed

lemma enummixed_switch_Halted_status:
  "enummixed_switch E a0 optarg c st = Halted out how \<Longrightarrow> how \<in> {ExitCode 1, Abort, AtoiNull}"
  by (auto simp: enummixed_switch_def PrintHelp_def split: if_splits option.splits)

lemma nfgipa_switch_Halted_status:
  "nfgipa_switch E a0 optarg c st = Halted out how \<Longrightarrow> how \<in> {ExitCode 1, Abort, AtoiNull}"
  by (auto simp: nfgipa_switch_def ipa_PrintHelp_def split: if_splits option.splits)

lemma enummixed_options_Halted_status:
  "enummixed_options E argv i st = Halted out how \<Longrightarrow> how \<in> {ExitCode 1, Abort, AtoiNull}"
proof (induction E argv i st rule: enummixed_options.induct)
  case (1 E argv i st)
  show ?case
  proof (cases "i < length argv")
    case False
    with "1.prems" show ?thesis by (simp add: enummixed_options_end)
  next
    case lt: True
    show ?thesis
    proof (cases "char_at (argv ! i) 0 = CHR ''-''")
      case False
      with lt "1.prems" have "enummixed_options E argv (i + 1) st = Halted out how"
        by (simp add: enummixed_options_skip)
      from "1.IH"(1) [OF lt False this] show ?thesis .
    next
      case dash: True
      show ?thesis
      proof (cases "enummixed_switch E (argv ! 0) (argv_at argv (Suc i)) (char_at (argv ! i) 1) st")
        case (Halted out' how')
        with lt dash "1.prems" have "how' = how" by (simp add: enummixed_options_switch)
        with enummixed_switch_Halted_status [OF Halted] show ?thesis by simp
      next
        case (Parsed st1)
        with lt dash "1.prems" have run: "enummixed_options E argv (i + 1) st1 = Halted out how"
          by (simp add: enummixed_options_switch)
        have sw: "enummixed_switch E (argv ! 0) (argv_at argv (i + 1)) (char_at (argv ! i) 1) st = Parsed st1"
          using Parsed by simp
        from "1.IH"(2) [OF lt _ sw run] dash show ?thesis by simp
      qed
    qed
  qed
qed

lemma nfgipa_options_Halted_status:
  "nfgipa_options E argv i st = Halted out how \<Longrightarrow> how \<in> {ExitCode 1, Abort, AtoiNull}"
proof (induction E argv i st rule: nfgipa_options.induct)
  case (1 E argv i st)
  show ?case
  proof (cases "i < length argv")
    case False
    with "1.prems" show ?thesis by (simp add: nfgipa_options_end)
  next
    case lt: True
    show ?thesis
    proof (cases "char_at (argv ! i) 0 = CHR ''-''")
      case False
      with lt "1.prems" have "nfgipa_options E argv (i + 1) st = Halted out how"
        by (simp add: nfgipa_options_skip)
      from "1.IH"(1) [OF lt False this] show ?thesis .
    next
      case dash: True
      show ?thesis
      proof (cases "nfgipa_switch E (argv ! 0) (argv_at argv (Suc i)) (char_at (argv ! i) 1) st")
        case (Halted out' how')
        with lt dash "1.prems" have "how' = how" by (simp add: nfgipa_options_switch)
        with nfgipa_switch_Halted_status [OF Halted] show ?thesis by simp
      next
        case (Parsed st1)
        with lt dash "1.prems" have run: "nfgipa_options E argv (i + 1) st1 = Halted out how"
          by (simp add: nfgipa_options_switch)
        have sw: "nfgipa_switch E (argv ! 0) (argv_at argv (i + 1)) (char_at (argv ! i) 1) st = Parsed st1"
          using Parsed by simp
        from "1.IH"(2) [OF lt _ sw run] dash show ?thesis by simp
      qed
    qed
  qed
qed

subsection \<open>The loops of \<open>PrintCliques\<close> in closed form\<close>

lemma PrintCliques_inner_drop:
  "1 \<le> i \<Longrightarrow> PrintCliques_inner clique cl i =
     map (\<lambda>p. (p, ''convex-'' @ lexical_cast cl)) (drop (i - 1) clique)"
proof (induction clique cl i rule: PrintCliques_inner.induct)
  case (1 clique cl i)
  show ?case
  proof (cases "i \<le> length clique")
    case True
    with "1.prems" have lt: "i - 1 < length clique" by simp
    have d: "drop (i - Suc 0) clique = clique ! (i - Suc 0) # drop i clique"
      using Cons_nth_drop_Suc [OF lt] "1.prems" by simp
    from True "1.IH" "1.prems" show ?thesis
      by (subst PrintCliques_inner.simps) (simp add: d)
  next
    case False
    then show ?thesis
      by (subst PrintCliques_inner.simps) simp
  qed
qed

lemma PrintCliques_outer_drop:
  "1 \<le> cl \<Longrightarrow> PrintCliques_outer cs cl =
     concat (map (\<lambda>(k, c). map (\<lambda>p. (p, ''convex-'' @ lexical_cast k)) c)
                 (zip [cl..<Suc (length cs)] (drop (cl - 1) cs)))"
proof (induction cs cl rule: PrintCliques_outer.induct)
  case (1 cs cl)
  show ?case
  proof (cases "cl \<le> length cs")
    case True
    with "1.prems" have lt: "cl - 1 < length cs" by simp
    have d: "drop (cl - Suc 0) cs = cs ! (cl - Suc 0) # drop cl cs"
      using Cons_nth_drop_Suc [OF lt] "1.prems" by simp
    have u: "[cl..<Suc (length cs)] = cl # [Suc cl..<Suc (length cs)]"
      using True by (simp add: upt_conv_Cons)
    from True "1.IH" "1.prems" show ?thesis
      by (subst PrintCliques_outer.simps)
         (simp add: d u PrintCliques_inner_drop del: upt_Suc)
  next
    case False
    then show ?thesis
      by (subst PrintCliques_outer.simps) simp
  qed
qed

lemma PrintCliques_convex_groups: "PrintCliques cs = convex_groups cs"
  by (simp add: PrintCliques_def convex_groups_def PrintCliques_outer_drop del: upt_Suc)

lemma lexical_cast_digit: "n < 10 \<Longrightarrow> lexical_cast n = [digit_char n]"
  by (subst lexical_cast.simps) simp

subsection \<open>The handler and the \<open>try\<close> blocks\<close>

lemma fst_thrown:
  "fst (thrown evs e) =
     evs @ (case e of RuntimeError what \<Rightarrow> [Stderr (''Error: '' @ what @ endl)] | OtherException \<Rightarrow> [])"
  by (cases e) simp_all

lemma snd_thrown:
  "snd (thrown evs e) = (case e of RuntimeError what \<Rightarrow> ExitCode 1 | OtherException \<Rightarrow> Uncaught)"
  by (cases e) simp_all

lemma ReadFrom_render_Rational: "ReadFrom s \<notin> render_Rational ` A"
  by (auto simp: render_Rational_def)

lemma ReadFrom_render_double: "ReadFrom s \<notin> render_double n ` A"
  by (auto simp: render_double_def)

lemma Stderr_render_Rational: "Stderr t \<notin> render_Rational ` A"
  by (auto simp: render_Rational_def)

lemma Stderr_render_double: "Stderr t \<notin> render_double n ` A"
  by (auto simp: render_double_def)


lemma enummixed_try_ReadFrom:
  "ReadFrom s' \<in> set (fst (enummixed_try E st s)) \<Longrightarrow> s' = s"
  by (auto simp: enummixed_try_def fst_thrown ReadFrom_render_Rational ReadFrom_render_double
           split: sum.splits prod.splits option.splits exn.splits if_splits)

lemma nfgipa_try_ReadFrom:
  "ReadFrom s' \<in> set (fst (nfgipa_try E st s)) \<Longrightarrow> s' = s"
  by (auto simp: nfgipa_try_def fst_thrown ReadFrom_render_double
           split: sum.splits prod.splits option.splits exn.splits if_splits)

lemma enummixed_try_status:
  "snd (enummixed_try E st s) \<in> {ExitCode 0, ExitCode 1, Uncaught}"
  by (auto simp: enummixed_try_def snd_thrown
           split: sum.splits prod.splits option.splits exn.splits if_splits)

lemma nfgipa_try_status:
  "snd (nfgipa_try E st s) \<in> {ExitCode 0, ExitCode 1, Uncaught}"
  by (auto simp: nfgipa_try_def snd_thrown
           split: sum.splits prod.splits option.splits exn.splits if_splits)

lemma enummixed_try_signalled_error:
  "enummixed_signalled E st s = Some (RuntimeError what) \<Longrightarrow>
     snd (enummixed_try E st s) = ExitCode 1 \<and> fst (enummixed_try E st s) \<noteq> [] \<and>
     last (fst (enummixed_try E st s)) = Stderr (''Error: '' @ what @ endl)"
  by (auto simp: enummixed_signalled_def enummixed_try_def
           split: sum.splits prod.splits option.splits if_splits)

lemma enummixed_try_signalled_none:
  "enummixed_signalled E st s = None \<Longrightarrow>
     snd (enummixed_try E st s) = ExitCode 0 \<and> (\<forall>t. Stderr t \<notin> set (fst (enummixed_try E st s)))"
  by (auto simp: enummixed_signalled_def enummixed_try_def
                 Stderr_render_Rational Stderr_render_double
           split: sum.splits prod.splits option.splits if_splits)

lemma nfgipa_try_signalled_error:
  "nfgipa_signalled E s = Some (RuntimeError what) \<Longrightarrow>
     snd (nfgipa_try E st s) = ExitCode 1 \<and> fst (nfgipa_try E st s) \<noteq> [] \<and>
     last (fst (nfgipa_try E st s)) = Stderr (''Error: '' @ what @ endl)"
  by (auto simp: nfgipa_signalled_def nfgipa_try_def
           split: sum.splits prod.splits option.splits if_splits)

lemma nfgipa_try_signalled_none:
  "nfgipa_signalled E s = None \<Longrightarrow>
     snd (nfgipa_try E st s) = ExitCode 0 \<and> (\<forall>t. Stderr t \<notin> set (fst (nfgipa_try E st s)))"
  by (auto simp: nfgipa_signalled_def nfgipa_try_def Stderr_render_double
           split: sum.splits prod.splits option.splits if_splits)

lemma enummixed_try_status_0:
  "snd (enummixed_try E st s) = ExitCode 0 \<longleftrightarrow> enummixed_signalled E st s = None"
  by (auto simp: enummixed_signalled_def enummixed_try_def snd_thrown
           split: sum.splits prod.splits option.splits exn.splits if_splits)

lemma nfgipa_try_status_0:
  "snd (nfgipa_try E st s) = ExitCode 0 \<longleftrightarrow> nfgipa_signalled E s = None"
  by (auto simp: nfgipa_signalled_def nfgipa_try_def snd_thrown
           split: sum.splits prod.splits option.splits exn.splits if_splits)

subsection \<open>Opening the input, and \<open>main\<close> behind the option loop\<close>

lemma open_input_last:
  "argv \<noteq> [] \<Longrightarrow>
     open_input E argv =
       (if is_open E (last argv) then Inr ([Open (last argv)], FileStream (last argv))
        else Inl ([Open (last argv), Perror (argv ! 0 @ '': '' @ last argv)], ExitCode 1))"
proof -
  assume ne: "argv \<noteq> []"
  then have "nat (int (length argv) - 1) = length argv - 1" by simp
  with ne have "argv ! nat (int (length argv) - 1) = last argv"
    by (simp add: last_conv_nth)
  moreover from ne have "\<not> int (length argv) - 1 < 0" by (cases argv) simp_all
  ultimately show ?thesis by (simp add: open_input_def Let_def)
qed

lemma open_input_never_Cin: "open_input E argv \<noteq> Inr (evs, Cin)"
  by (simp add: open_input_def Let_def)

lemma open_input_Inr:
  "open_input E argv = Inr (evs, s) \<Longrightarrow> \<exists>path. s = FileStream path \<and> evs = [Open path]"
  by (auto simp: open_input_def Let_def split: if_splits)

lemma open_input_Inl:
  "open_input E argv = Inl (evs, how) \<Longrightarrow> ReadFrom s \<notin> set evs \<and> how \<in> {ExitCode 1, BadRead}"
  by (auto simp: open_input_def Let_def split: if_splits)

lemma open_input_shift: "open_input E (p # x # a # xs) = open_input E (p # a # xs)"
  by (simp add: open_input_last)

lemma enummixed_main_never_Cin: "ReadFrom Cin \<notin> set (fst (enummixed_main E argv))"
proof (cases "enummixed_options E argv 1 initial_options")
  case (Halted out how)
  then show ?thesis by (auto simp: enummixed_main_def)
next
  case (Parsed st)
  show ?thesis
  proof (cases "open_input E argv")
    case (Inl a)
    obtain evs how where a: "a = (evs, how)" by (cases a)
    with Inl open_input_Inl [of E argv evs how Cin] Parsed show ?thesis
      by (simp add: enummixed_main_def)
  next
    case (Inr b)
    obtain evs s where b: "b = (evs, s)" by (cases b)
    with Inr open_input_Inr [of E argv evs s] obtain path
      where s: "s = FileStream path" and evs: "evs = [Open path]" by blast
    have "ReadFrom Cin \<notin> set (fst (enummixed_try E st (FileStream path)))"
      using enummixed_try_ReadFrom [of Cin E st "FileStream path"] by auto
    with Parsed Inr b s evs show ?thesis
      by (auto simp: enummixed_main_def split: prod.splits)
  qed
qed

lemma nfgipa_main_never_Cin: "ReadFrom Cin \<notin> set (fst (nfgipa_main E argv))"
proof (cases "nfgipa_options E argv 1 ipa_initial_options")
  case (Halted out how)
  then show ?thesis by (auto simp: nfgipa_main_def)
next
  case (Parsed st)
  show ?thesis
  proof (cases "open_input E argv")
    case (Inl a)
    obtain evs how where a: "a = (evs, how)" by (cases a)
    with Inl open_input_Inl [of E argv evs how Cin] Parsed show ?thesis
      by (simp add: nfgipa_main_def)
  next
    case (Inr b)
    obtain evs s where b: "b = (evs, s)" by (cases b)
    with Inr open_input_Inr [of E argv evs s] obtain path
      where s: "s = FileStream path" and evs: "evs = [Open path]" by blast
    have "ReadFrom Cin \<notin> set (fst (nfgipa_try E st (FileStream path)))"
      using nfgipa_try_ReadFrom [of Cin E st "FileStream path"] by auto
    with Parsed Inr b s evs show ?thesis
      by (auto simp: nfgipa_main_def split: prod.splits)
  qed
qed

lemma enummixed_main_Parsed:
  "argv \<noteq> [] \<Longrightarrow> enummixed_options E argv 1 initial_options = Parsed st \<Longrightarrow>
     enummixed_main E argv =
       (if is_open E (last argv)
        then ((if \<not> quiet st then [Stderr (PrintBanner (VERSION E))] else []) @
                Open (last argv) # fst (enummixed_try E st (FileStream (last argv))),
              snd (enummixed_try E st (FileStream (last argv))))
        else ((if \<not> quiet st then [Stderr (PrintBanner (VERSION E))] else []) @
                [Open (last argv), Perror (argv ! 0 @ '': '' @ last argv)], ExitCode 1))"
  by (simp add: enummixed_main_def open_input_last split: prod.splits)

lemma nfgipa_main_Parsed:
  "argv \<noteq> [] \<Longrightarrow> nfgipa_options E argv 1 ipa_initial_options = Parsed st \<Longrightarrow>
     nfgipa_main E argv =
       (if is_open E (last argv)
        then ((if \<not> ipa_quiet st then [Stderr (ipa_PrintBanner (VERSION E))] else []) @
                Open (last argv) # fst (nfgipa_try E st (FileStream (last argv))),
              snd (nfgipa_try E st (FileStream (last argv))))
        else ((if \<not> ipa_quiet st then [Stderr (ipa_PrintBanner (VERSION E))] else []) @
                [Open (last argv), Perror (argv ! 0 @ '': '' @ last argv)], ExitCode 1))"
  by (simp add: nfgipa_main_def open_input_last split: prod.splits)

lemma enummixed_main_status_0:
  "argv \<noteq> [] \<Longrightarrow>
     snd (enummixed_main E argv) = ExitCode 0 \<longleftrightarrow>
       (\<exists>st. enummixed_options E argv 1 initial_options = Parsed st \<and> is_open E (last argv) \<and>
             enummixed_signalled E st (FileStream (last argv)) = None)"
proof (cases "enummixed_options E argv 1 initial_options")
  case (Halted out how)
  assume "argv \<noteq> []"
  from enummixed_options_Halted_status [OF Halted] Halted show ?thesis
    by (auto simp: enummixed_main_def)
next
  case (Parsed st)
  assume "argv \<noteq> []"
  with Parsed show ?thesis
    by (simp add: enummixed_main_Parsed enummixed_try_status_0)
qed

lemma nfgipa_main_status_0:
  "argv \<noteq> [] \<Longrightarrow>
     snd (nfgipa_main E argv) = ExitCode 0 \<longleftrightarrow>
       (\<exists>st. nfgipa_options E argv 1 ipa_initial_options = Parsed st \<and> is_open E (last argv) \<and>
             nfgipa_signalled E (FileStream (last argv)) = None)"
proof (cases "nfgipa_options E argv 1 ipa_initial_options")
  case (Halted out how)
  assume "argv \<noteq> []"
  from nfgipa_options_Halted_status [OF Halted] Halted show ?thesis
    by (auto simp: nfgipa_main_def)
next
  case (Parsed st)
  assume "argv \<noteq> []"
  with Parsed show ?thesis
    by (simp add: nfgipa_main_Parsed nfgipa_try_status_0)
qed

subsection \<open>The clique output\<close>

lemma enummixed_try_no_cliques:
  "\<not> showConnect st \<Longrightarrow> enummixed_try E st s = enummixed_try (no_cliques E) st s"
  by (simp add: enummixed_try_def no_cliques_def drop_cliques_def
           split: sum.splits prod.splits option.splits)

lemma enummixed_switch_showConnect:
  "enummixed_switch E a0 optarg c st = Parsed st' \<Longrightarrow> showConnect st' \<Longrightarrow>
     showConnect st \<or> c = CHR ''c''"
  by (auto simp: enummixed_switch_def PrintHelp_def split: if_splits option.splits)

lemma enummixed_options_showConnect:
  "enummixed_options E argv i st = Parsed st' \<Longrightarrow> showConnect st' \<Longrightarrow>
     showConnect st \<or> (\<exists>j. i \<le> j \<and> j < length argv \<and> is_option (CHR ''c'') (argv ! j))"
proof (induction E argv i st rule: enummixed_options.induct)
  case (1 E argv i st)
  show ?case
  proof (cases "i < length argv")
    case False
    with "1.prems" show ?thesis by (simp add: enummixed_options_end)
  next
    case lt: True
    show ?thesis
    proof (cases "char_at (argv ! i) 0 = CHR ''-''")
      case False
      with lt "1.prems" have "enummixed_options E argv (i + 1) st = Parsed st'"
        by (simp add: enummixed_options_skip)
      from "1.IH"(1) [OF lt False this "1.prems"(2)] show ?thesis
        by (auto intro: Suc_leD)
    next
      case dash: True
      show ?thesis
      proof (cases "enummixed_switch E (argv ! 0) (argv_at argv (Suc i)) (char_at (argv ! i) 1) st")
        case (Halted out how)
        with lt dash "1.prems" show ?thesis by (simp add: enummixed_options_switch)
      next
        case (Parsed st1)
        with lt dash "1.prems" have run: "enummixed_options E argv (i + 1) st1 = Parsed st'"
          by (simp add: enummixed_options_switch)
        have sw: "enummixed_switch E (argv ! 0) (argv_at argv (i + 1)) (char_at (argv ! i) 1) st = Parsed st1"
          using Parsed by simp
        from "1.IH"(2) [OF lt _ sw run "1.prems"(2)] dash
        have "showConnect st1 \<or> (\<exists>j. i + 1 \<le> j \<and> j < length argv \<and> is_option (CHR ''c'') (argv ! j))"
          by simp
        then show ?thesis
        proof
          assume "showConnect st1"
          with enummixed_switch_showConnect [OF Parsed]
          have "showConnect st \<or> char_at (argv ! i) 1 = CHR ''c''" by simp
          with dash lt show ?thesis by (auto simp: is_option_def)
        next
          assume "\<exists>j. i + 1 \<le> j \<and> j < length argv \<and> is_option (CHR ''c'') (argv ! j)"
          then show ?thesis by (auto intro: Suc_leD)
        qed
      qed
    qed
  qed
qed

lemma enummixed_try_Rational_cliques:
  "showConnect st \<Longrightarrow> \<not> uselrs st \<Longrightarrow> \<not> useFloat st \<Longrightarrow> ReadGame E s = Inr game \<Longrightarrow>
   SolveDetailed_Rational E game = (out, Inr cliques) \<Longrightarrow>
     enummixed_try E st s =
       (ReadFrom s # map render_Rational out @ map render_Rational (convex_groups cliques), ExitCode 0)"
  by (simp add: enummixed_try_def PrintCliques_convex_groups)

lemma enummixed_try_double_cliques:
  "showConnect st \<Longrightarrow> \<not> uselrs st \<Longrightarrow> useFloat st \<Longrightarrow> ReadGame E s = Inr game \<Longrightarrow>
   SolveDetailed_double E game = (out, Inr cliques) \<Longrightarrow>
     enummixed_try E st s =
       (ReadFrom s # map (render_double (numDecimals st)) out @
          map (render_double (numDecimals st)) (convex_groups cliques), ExitCode 0)"
  by (simp add: enummixed_try_def PrintCliques_convex_groups)

subsection \<open>The call \<open>atoi(NULL)\<close>\<close>

lemma enummixed_switch_AtoiNull:
  "enummixed_switch E a0 optarg c st = Halted out AtoiNull \<longleftrightarrow>
     c = CHR ''d'' \<and> optarg = None \<and> out = []"
  by (auto simp: enummixed_switch_def PrintHelp_def split: option.splits)

lemma nfgipa_switch_AtoiNull:
  "nfgipa_switch E a0 optarg c st = Halted out AtoiNull \<longleftrightarrow>
     c = CHR ''d'' \<and> optarg = None \<and> out = []"
  by (auto simp: nfgipa_switch_def ipa_PrintHelp_def split: option.splits)

lemma enummixed_options_no_AtoiNull:
  assumes "\<And>j. i \<le> j \<Longrightarrow> j < length argv \<Longrightarrow> is_option (CHR ''d'') (argv ! j) \<Longrightarrow>
             Suc j < length argv"
  shows "enummixed_options E argv i st \<noteq> Halted out AtoiNull"
  using assms
proof (induction E argv i st rule: enummixed_options.induct)
  case (1 E argv i st)
  show ?case
  proof (cases "i < length argv")
    case False
    then show ?thesis by (simp add: enummixed_options_end)
  next
    case lt: True
    show ?thesis
    proof (cases "char_at (argv ! i) 0 = CHR ''-''")
      case False
      have "enummixed_options E argv (i + 1) st \<noteq> Halted out AtoiNull"
        using "1.IH"(1) [OF lt False] "1.prems" by simp
      with lt False show ?thesis by (simp add: enummixed_options_skip)
    next
      case dash: True
      show ?thesis
      proof (cases "enummixed_switch E (argv ! 0) (argv_at argv (Suc i)) (char_at (argv ! i) 1) st")
        case (Parsed st')
        have "enummixed_options E argv (i + 1) st' \<noteq> Halted out AtoiNull"
          using "1.IH"(2) [OF lt _ ] dash Parsed "1.prems" by simp
        with lt dash Parsed show ?thesis by (simp add: enummixed_options_switch)
      next
        case (Halted out' how)
        have "how \<noteq> AtoiNull"
        proof
          assume "how = AtoiNull"
          with Halted have "char_at (argv ! i) 1 = CHR ''d''" "argv_at argv (Suc i) = None"
            by (simp_all add: enummixed_switch_AtoiNull)
          moreover from this dash lt "1.prems" [of i] have "Suc i < length argv"
            by (simp add: is_option_def)
          ultimately show False by (simp add: argv_at_def)
        qed
        with lt dash Halted show ?thesis by (simp add: enummixed_options_switch)
      qed
    qed
  qed
qed

lemma nfgipa_options_no_AtoiNull:
  assumes "\<And>j. i \<le> j \<Longrightarrow> j < length argv \<Longrightarrow> is_option (CHR ''d'') (argv ! j) \<Longrightarrow>
             Suc j < length argv"
  shows "nfgipa_options E argv i st \<noteq> Halted out AtoiNull"
  using assms
proof (induction E argv i st rule: nfgipa_options.induct)
  case (1 E argv i st)
  show ?case
  proof (cases "i < length argv")
    case False
    then show ?thesis by (simp add: nfgipa_options_end)
  next
    case lt: True
    show ?thesis
    proof (cases "char_at (argv ! i) 0 = CHR ''-''")
      case False
      have "nfgipa_options E argv (i + 1) st \<noteq> Halted out AtoiNull"
        using "1.IH"(1) [OF lt False] "1.prems" by simp
      with lt False show ?thesis by (simp add: nfgipa_options_skip)
    next
      case dash: True
      show ?thesis
      proof (cases "nfgipa_switch E (argv ! 0) (argv_at argv (Suc i)) (char_at (argv ! i) 1) st")
        case (Parsed st')
        have "nfgipa_options E argv (i + 1) st' \<noteq> Halted out AtoiNull"
          using "1.IH"(2) [OF lt _ ] dash Parsed "1.prems" by simp
        with lt dash Parsed show ?thesis by (simp add: nfgipa_options_switch)
      next
        case (Halted out' how)
        have "how \<noteq> AtoiNull"
        proof
          assume "how = AtoiNull"
          with Halted have "char_at (argv ! i) 1 = CHR ''d''" "argv_at argv (Suc i) = None"
            by (simp_all add: nfgipa_switch_AtoiNull)
          moreover from this dash lt "1.prems" [of i] have "Suc i < length argv"
            by (simp add: is_option_def)
          ultimately show False by (simp add: argv_at_def)
        qed
        with lt dash Halted show ?thesis by (simp add: nfgipa_options_switch)
      qed
    qed
  qed
qed

lemma enummixed_options_last_d:
  "Suc i = length argv \<Longrightarrow> is_option (CHR ''d'') (argv ! i) \<Longrightarrow>
     enummixed_options E argv i st = Halted [] AtoiNull"
  by (simp add: enummixed_options_switch is_option_def argv_at_def enummixed_switch_def)

lemma nfgipa_options_last_d:
  "Suc i = length argv \<Longrightarrow> is_option (CHR ''d'') (argv ! i) \<Longrightarrow>
     nfgipa_options E argv i st = Halted [] AtoiNull"
  by (simp add: nfgipa_options_switch is_option_def argv_at_def nfgipa_switch_def)

lemma enummixed_main_status_AtoiNull:
  "snd (enummixed_main E argv) = AtoiNull \<Longrightarrow>
     \<exists>out. enummixed_options E argv 1 initial_options = Halted out AtoiNull"
proof (cases "enummixed_options E argv 1 initial_options")
  case (Halted out how)
  assume "snd (enummixed_main E argv) = AtoiNull"
  with Halted show ?thesis by (simp add: enummixed_main_def)
next
  case (Parsed st)
  assume a: "snd (enummixed_main E argv) = AtoiNull"
  show ?thesis
  proof (cases "open_input E argv")
    case (Inl x)
    obtain evs how where x: "x = (evs, how)" by (cases x)
    with Inl open_input_Inl [of E argv evs how Cin] Parsed a show ?thesis
      by (auto simp: enummixed_main_def)
  next
    case (Inr y)
    obtain evs s where y: "y = (evs, s)" by (cases y)
    with Inr Parsed a enummixed_try_status [of E st s] show ?thesis
      by (auto simp: enummixed_main_def split: prod.splits)
  qed
qed

lemma nfgipa_main_status_AtoiNull:
  "snd (nfgipa_main E argv) = AtoiNull \<Longrightarrow>
     \<exists>out. nfgipa_options E argv 1 ipa_initial_options = Halted out AtoiNull"
proof (cases "nfgipa_options E argv 1 ipa_initial_options")
  case (Halted out how)
  assume "snd (nfgipa_main E argv) = AtoiNull"
  with Halted show ?thesis by (simp add: nfgipa_main_def)
next
  case (Parsed st)
  assume a: "snd (nfgipa_main E argv) = AtoiNull"
  show ?thesis
  proof (cases "open_input E argv")
    case (Inl x)
    obtain evs how where x: "x = (evs, how)" by (cases x)
    with Inl open_input_Inl [of E argv evs how Cin] Parsed a show ?thesis
      by (auto simp: nfgipa_main_def)
  next
    case (Inr y)
    obtain evs s where y: "y = (evs, s)" by (cases y)
    with Inr Parsed a nfgipa_try_status [of E st s] show ?thesis
      by (auto simp: nfgipa_main_def split: prod.splits)
  qed
qed

subsection \<open>Unknown options\<close>

text \<open>
  The texts written in the option loop are told apart by their last two characters: the
  banners end with two line ends, the usage texts with \<open>n\<close> and a line end, and the
  message about an unknown option with a full stop and a line end.
\<close>

lemma tail2_step:
  "last (butlast (ys @ zs)) = a \<and> butlast (ys @ zs) \<noteq> [] \<Longrightarrow>
     last (butlast (xs @ ys @ zs)) = a \<and> butlast (xs @ ys @ zs) \<noteq> []"
  by (cases "ys @ zs") (auto simp: butlast_append simp del: append_is_Nil_conv)

lemma unknown_option_tail: "last (butlast (unknown_option a0 c)) = CHR ''.''"
  by (simp add: unknown_option_def endl_def butlast_append)

lemma PrintBanner_tail:
  "last (butlast (PrintBanner v)) = CHR 0x0A \<and> butlast (PrintBanner v) \<noteq> []"
  unfolding PrintBanner_def
  by ((rule tail2_step)+, simp add: endl_def)

lemma ipa_PrintBanner_tail:
  "last (butlast (ipa_PrintBanner v)) = CHR 0x0A \<and> butlast (ipa_PrintBanner v) \<noteq> []"
  unfolding ipa_PrintBanner_def
  by ((rule tail2_step)+, simp add: endl_def)

lemma PrintHelp_text_tail:
  "last (butlast (PrintHelp_text p)) = CHR ''n'' \<and> butlast (PrintHelp_text p) \<noteq> []"
  unfolding PrintHelp_text_def
  by ((rule tail2_step)+, simp add: endl_def)

lemma ipa_PrintHelp_text_tail:
  "last (butlast (ipa_PrintHelp_text p)) = CHR ''n'' \<and> butlast (ipa_PrintHelp_text p) \<noteq> []"
  unfolding ipa_PrintHelp_text_def
  by ((rule tail2_step)+, simp add: endl_def)

lemma unknown_option_not_banner:
  "unknown_option a0 c \<noteq> PrintBanner v" "unknown_option a0 c \<noteq> ipa_PrintBanner v"
  "unknown_option a0 c \<noteq> PrintHelp_text p" "unknown_option a0 c \<noteq> ipa_PrintHelp_text p"
  using unknown_option_tail [of a0 c] PrintBanner_tail [of v] ipa_PrintBanner_tail [of v]
    PrintHelp_text_tail [of p] ipa_PrintHelp_text_tail [of p]
  by auto

lemma enummixed_switch_Abort:
  "c \<notin> set ''vdDLhcSq?'' \<Longrightarrow> enummixed_switch E a0 optarg c st = Halted [] Abort"
  by (simp add: enummixed_switch_def)

lemma nfgipa_switch_Abort:
  "c \<notin> set ''vqVdSh?'' \<Longrightarrow> nfgipa_switch E a0 optarg c st = Halted [] Abort"
  by (simp add: nfgipa_switch_def)

lemma enummixed_switch_unknown:
  "enummixed_switch E a0 optarg c st = Halted out how \<Longrightarrow> unknown_option a0' c' \<in> set out \<Longrightarrow>
     c = CHR ''?''"
  by (auto simp: enummixed_switch_def PrintHelp_def unknown_option_not_banner
           split: if_splits option.splits)

lemma nfgipa_switch_unknown:
  "nfgipa_switch E a0 optarg c st = Halted out how \<Longrightarrow> unknown_option a0' c' \<in> set out \<Longrightarrow>
     c = CHR ''?''"
  by (auto simp: nfgipa_switch_def ipa_PrintHelp_def unknown_option_not_banner
           split: if_splits option.splits)

lemma unknown_option_question:
  "unknown_option a0 (CHR ''?'') = a0 @ '': Unknown option `-?'' @ [CHR 0x27] @ ''.'' @ endl"
  by (simp add: unknown_option_def isprint_def)

lemma enummixed_options_unknown:
  "enummixed_options E argv i st = Halted out how \<Longrightarrow> unknown_option a0' c' \<in> set out \<Longrightarrow>
     \<exists>j. i \<le> j \<and> j < length argv \<and> is_option (CHR ''?'') (argv ! j)"
proof (induction E argv i st rule: enummixed_options.induct)
  case (1 E argv i st)
  show ?case
  proof (cases "i < length argv")
    case False
    with "1.prems" show ?thesis by (simp add: enummixed_options_end)
  next
    case lt: True
    show ?thesis
    proof (cases "char_at (argv ! i) 0 = CHR ''-''")
      case False
      with lt "1.prems" have "enummixed_options E argv (i + 1) st = Halted out how"
        by (simp add: enummixed_options_skip)
      from "1.IH"(1) [OF lt False this "1.prems"(2)] show ?thesis
        by (auto intro: Suc_leD)
    next
      case dash: True
      show ?thesis
      proof (cases "enummixed_switch E (argv ! 0) (argv_at argv (Suc i)) (char_at (argv ! i) 1) st")
        case (Halted out' how')
        with lt dash "1.prems" have "out' = out" by (simp add: enummixed_options_switch)
        with Halted "1.prems"(2) have "char_at (argv ! i) 1 = CHR ''?''"
          by (auto dest: enummixed_switch_unknown)
        with dash lt show ?thesis by (auto simp: is_option_def)
      next
        case (Parsed st1)
        with lt dash "1.prems" have run: "enummixed_options E argv (i + 1) st1 = Halted out how"
          by (simp add: enummixed_options_switch)
        have sw: "enummixed_switch E (argv ! 0) (argv_at argv (i + 1)) (char_at (argv ! i) 1) st = Parsed st1"
          using Parsed by simp
        from "1.IH"(2) [OF lt _ sw run "1.prems"(2)] dash show ?thesis
          by (auto intro: Suc_leD)
      qed
    qed
  qed
qed

lemma nfgipa_options_unknown:
  "nfgipa_options E argv i st = Halted out how \<Longrightarrow> unknown_option a0' c' \<in> set out \<Longrightarrow>
     \<exists>j. i \<le> j \<and> j < length argv \<and> is_option (CHR ''?'') (argv ! j)"
proof (induction E argv i st rule: nfgipa_options.induct)
  case (1 E argv i st)
  show ?case
  proof (cases "i < length argv")
    case False
    with "1.prems" show ?thesis by (simp add: nfgipa_options_end)
  next
    case lt: True
    show ?thesis
    proof (cases "char_at (argv ! i) 0 = CHR ''-''")
      case False
      with lt "1.prems" have "nfgipa_options E argv (i + 1) st = Halted out how"
        by (simp add: nfgipa_options_skip)
      from "1.IH"(1) [OF lt False this "1.prems"(2)] show ?thesis
        by (auto intro: Suc_leD)
    next
      case dash: True
      show ?thesis
      proof (cases "nfgipa_switch E (argv ! 0) (argv_at argv (Suc i)) (char_at (argv ! i) 1) st")
        case (Halted out' how')
        with lt dash "1.prems" have "out' = out" by (simp add: nfgipa_options_switch)
        with Halted "1.prems"(2) have "char_at (argv ! i) 1 = CHR ''?''"
          by (auto dest: nfgipa_switch_unknown)
        with dash lt show ?thesis by (auto simp: is_option_def)
      next
        case (Parsed st1)
        with lt dash "1.prems" have run: "nfgipa_options E argv (i + 1) st1 = Halted out how"
          by (simp add: nfgipa_options_switch)
        have sw: "nfgipa_switch E (argv ! 0) (argv_at argv (i + 1)) (char_at (argv ! i) 1) st = Parsed st1"
          using Parsed by simp
        from "1.IH"(2) [OF lt _ sw run "1.prems"(2)] dash show ?thesis
          by (auto intro: Suc_leD)
      qed
    qed
  qed
qed

subsection \<open>The flag \<open>eliminate\<close>\<close>

lemma enummixed_try_eliminate:
  "enummixed_try E (st\<lparr>eliminate := b\<rparr>) s = enummixed_try E st s"
  by (simp add: enummixed_try_def split: sum.splits prod.splits option.splits)

lemma enummixed_switch_eliminate:
  "st\<lparr>eliminate := b\<rparr> = st'\<lparr>eliminate := b\<rparr> \<Longrightarrow>
     map_parsed (\<lambda>s. s\<lparr>eliminate := b\<rparr>) (enummixed_switch E a0 optarg c st) =
     map_parsed (\<lambda>s. s\<lparr>eliminate := b\<rparr>) (enummixed_switch E a0 optarg c st')"
proof -
  assume a: "st\<lparr>eliminate := b\<rparr> = st'\<lparr>eliminate := b\<rparr>"
  have u: "(f st)\<lparr>eliminate := b\<rparr> = (f st')\<lparr>eliminate := b\<rparr>"
    if "\<And>s. (f s)\<lparr>eliminate := b\<rparr> = f (s\<lparr>eliminate := b\<rparr>)" for f
    using that [of st] that [of st'] a by simp
  have 1: "st\<lparr>useFloat := True, numDecimals := n, eliminate := b\<rparr> =
           st'\<lparr>useFloat := True, numDecimals := n, eliminate := b\<rparr>" for n
    using u [of "\<lambda>s. s\<lparr>useFloat := True, numDecimals := n\<rparr>"] by simp
  have 2: "st\<lparr>uselrs := True, eliminate := b\<rparr> = st'\<lparr>uselrs := True, eliminate := b\<rparr>"
    using u [of "\<lambda>s. s\<lparr>uselrs := True\<rparr>"] by simp
  have 3: "st\<lparr>showConnect := True, eliminate := b\<rparr> = st'\<lparr>showConnect := True, eliminate := b\<rparr>"
    using u [of "\<lambda>s. s\<lparr>showConnect := True\<rparr>"] by simp
  have 4: "st\<lparr>quiet := True, eliminate := b\<rparr> = st'\<lparr>quiet := True, eliminate := b\<rparr>"
    using u [of "\<lambda>s. s\<lparr>quiet := True\<rparr>"] by simp
  show ?thesis
    using a 1 2 3 4
    by (simp add: enummixed_switch_def PrintHelp_def split: option.splits)
qed

lemma enummixed_options_eliminate:
  "st\<lparr>eliminate := b\<rparr> = st'\<lparr>eliminate := b\<rparr> \<Longrightarrow>
     map_parsed (\<lambda>s. s\<lparr>eliminate := b\<rparr>) (enummixed_options E argv i st) =
     map_parsed (\<lambda>s. s\<lparr>eliminate := b\<rparr>) (enummixed_options E argv i st')"
proof (induction E argv i st arbitrary: st' rule: enummixed_options.induct)
  case (1 E argv i st)
  show ?case
  proof (cases "i < length argv")
    case False
    with "1.prems" show ?thesis by (simp add: enummixed_options_end)
  next
    case lt: True
    show ?thesis
    proof (cases "char_at (argv ! i) 0 = CHR ''-''")
      case False
      with lt "1.IH"(1) [OF lt False "1.prems"] show ?thesis
        by (simp add: enummixed_options_skip)
    next
      case dash: True
      let ?sw = "\<lambda>s. enummixed_switch E (argv ! 0) (argv_at argv (Suc i)) (char_at (argv ! i) 1) s"
      have sw: "map_parsed (\<lambda>s. s\<lparr>eliminate := b\<rparr>) (?sw st) =
                map_parsed (\<lambda>s. s\<lparr>eliminate := b\<rparr>) (?sw st')"
        using "1.prems" by (rule enummixed_switch_eliminate)
      show ?thesis
      proof (cases "?sw st")
        case (Halted out how)
        with sw have "?sw st' = Halted out how" by (cases "?sw st'") simp_all
        with Halted lt dash show ?thesis by (simp add: enummixed_options_switch)
      next
        case (Parsed st1)
        with sw obtain st1' where p': "?sw st' = Parsed st1'"
          and eq: "st1\<lparr>eliminate := b\<rparr> = st1'\<lparr>eliminate := b\<rparr>"
          by (cases "?sw st'") simp_all
        have "enummixed_switch E (argv ! 0) (argv_at argv (i + 1)) (char_at (argv ! i) 1) st = Parsed st1"
          using Parsed by simp
        from "1.IH"(2) [OF lt _ this eq] dash
        have "map_parsed (\<lambda>s. s\<lparr>eliminate := b\<rparr>) (enummixed_options E argv (Suc i) st1) =
              map_parsed (\<lambda>s. s\<lparr>eliminate := b\<rparr>) (enummixed_options E argv (Suc i) st1')"
          by simp
        with Parsed p' lt dash show ?thesis by (simp add: enummixed_options_switch)
      qed
    qed
  qed
qed

text \<open>What \<open>main\<close> does behind the option loop, as a function of the loop's result.\<close>

lemma enummixed_main_eliminate:
  assumes "map_parsed (\<lambda>s. s\<lparr>eliminate := b\<rparr>) r = map_parsed (\<lambda>s. s\<lparr>eliminate := b\<rparr>) r'"
  shows "(case r of
            Halted out how \<Rightarrow> (map Stderr out, how)
          | Parsed st \<Rightarrow>
              (let banner = (if \<not> quiet st then [Stderr (PrintBanner (VERSION E))] else []) in
               case open_input E argv of
                 Inl (evs, how) \<Rightarrow> (banner @ evs, how)
               | Inr (evs, input_stream) \<Rightarrow>
                   (case enummixed_try E st input_stream of
                      (evs', how) \<Rightarrow> (banner @ evs @ evs', how)))) =
         (case r' of
            Halted out how \<Rightarrow> (map Stderr out, how)
          | Parsed st \<Rightarrow>
              (let banner = (if \<not> quiet st then [Stderr (PrintBanner (VERSION E))] else []) in
               case open_input E argv of
                 Inl (evs, how) \<Rightarrow> (banner @ evs, how)
               | Inr (evs, input_stream) \<Rightarrow>
                   (case enummixed_try E st input_stream of
                      (evs', how) \<Rightarrow> (banner @ evs @ evs', how))))"
proof (cases r)
  case (Halted out how)
  with assms have "r' = Halted out how" by (cases r') simp_all
  with Halted show ?thesis by simp
next
  case (Parsed st)
  with assms obtain st' where r': "r' = Parsed st'"
    and eq: "st\<lparr>eliminate := b\<rparr> = st'\<lparr>eliminate := b\<rparr>"
    by (cases r') simp_all
  from eq have q: "quiet st = quiet st'"
    by (metis options.select_convs(3) options.surjective options.update_convs(4))
  from eq have t: "enummixed_try E st s = enummixed_try E st' s" for s
    using enummixed_try_eliminate [of E b st s] enummixed_try_eliminate [of E b st' s] by simp
  from Parsed r' q t show ?thesis by (simp add: Let_def split: sum.splits prod.splits)
qed

lemma enummixed_options_shift:
  "1 \<le> i \<Longrightarrow>
     enummixed_options E (p # x # xs) (Suc i) st = enummixed_options E (p # xs) i st"
proof (induction "Suc (length xs) - i" arbitrary: i st)
  case 0
  then show ?case by (simp add: enummixed_options_end)
next
  case (Suc n)
  then have lt: "i < length (p # xs)" and lt': "Suc i < length (p # x # xs)" by simp_all
  from Suc.prems obtain k where k: "i = Suc k" by (cases i) simp_all
  have nth: "(p # x # xs) ! Suc i = (p # xs) ! i" using k by simp
  have at: "argv_at (p # x # xs) (Suc (Suc i)) = argv_at (p # xs) (Suc i)"
    using k by (simp add: argv_at_def)
  have IH: "enummixed_options E (p # x # xs) (Suc (Suc i)) st' = enummixed_options E (p # xs) (Suc i) st'" for st'
    using Suc.hyps(1) [of "Suc i" st'] Suc.hyps(2) by simp
  show ?case
  proof (cases "char_at ((p # xs) ! i) 0 = CHR ''-''")
    case False
    with lt lt' nth IH show ?thesis by (simp add: enummixed_options_skip)
  next
    case True
    with lt lt' nth at IH show ?thesis
      by (simp add: enummixed_options_switch cong: parsed.case_cong)
  qed
qed

subsection \<open>The flag \<open>uselrs\<close>\<close>







subsection \<open>The equilibria of the coordination game\<close>

lemmas equilibrium_defs =
  is_equilibrium_def is_distribution_def full_complementarity_def best_response_1_def
  best_response_2_def expected_payoff_1_def expected_payoff_2_def strategies_1_def
  strategies_2_def coordination_game_def

lemma upt_2: "[0..<2] = [0, Suc 0]"
  by (simp add: upt_rec)

lemma length_2: "length w = 2 \<longleftrightarrow> (\<exists>a b. w = [a, b])"
  by (cases w; cases "tl w"; cases "tl (tl w)") auto

lemma coordination_equilibrium_weights:
  "is_equilibrium coordination_game ([a, b], [c, d]) \<longleftrightarrow>
     0 \<le> a \<and> 0 \<le> b \<and> a + b = 1 \<and> 0 \<le> c \<and> 0 \<le> d \<and> c + d = 1 \<and>
     (0 < a \<longrightarrow> 2 * d \<le> 3 * c) \<and> (0 < b \<longrightarrow> 3 * c \<le> 2 * d) \<and>
     (0 < c \<longrightarrow> 3 * b \<le> 2 * a) \<and> (0 < d \<longrightarrow> 2 * a \<le> 3 * b)"
  by (auto simp: equilibrium_defs upt_2 mult.commute)

lemma coordination_equilibrium_cases:
  assumes "is_equilibrium coordination_game ([a, b], [c, d])"
  shows "(a = 1 \<and> b = 0 \<and> c = 1 \<and> d = 0) \<or> (a = 0 \<and> b = 1 \<and> c = 0 \<and> d = 1) \<or>
         (a = 3 / 5 \<and> b = 2 / 5 \<and> c = 2 / 5 \<and> d = 3 / 5)"
proof -
  from assms have w: "0 \<le> a" "0 \<le> b" "a + b = 1" "0 \<le> c" "0 \<le> d" "c + d = 1"
    and a: "0 < a \<Longrightarrow> 2 * d \<le> 3 * c" and b: "0 < b \<Longrightarrow> 3 * c \<le> 2 * d"
    and c: "0 < c \<Longrightarrow> 3 * b \<le> 2 * a" and d: "0 < d \<Longrightarrow> 2 * a \<le> 3 * b"
    by (simp_all add: coordination_equilibrium_weights)
  consider "b = 0" | "a = 0" | "0 < a" "0 < b" using w by (cases "a = 0"; cases "b = 0") auto
  then show ?thesis
  proof cases
    case 1
    with w have a1: "a = 1" by simp
    have "\<not> 0 < d" using d a1 1 by auto
    with w have "d = 0" "c = 1" by simp_all
    with 1 a1 show ?thesis by simp
  next
    case 2
    with w have b1: "b = 1" by simp
    have "\<not> 0 < c" using c b1 2 by auto
    with w have "c = 0" "d = 1" by simp_all
    with 2 b1 show ?thesis by simp
  next
    case 3
    with a b have cd: "3 * c = 2 * d" by simp
    with w have c': "c = 2 / 5" and d': "d = 3 / 5" by simp_all
    with c d have "2 * a = 3 * b" by simp
    with w have "a = 3 / 5" "b = 2 / 5" by simp_all
    with c' d' show ?thesis by simp
  qed
qed

lemma coordination_game_is_equilibrium:
  "is_equilibrium coordination_game p \<longleftrightarrow>
     p \<in> {([1, 0], [1, 0]), ([0, 1], [0, 1]), ([3 / 5, 2 / 5], [2 / 5, 3 / 5])}"
proof
  assume e: "is_equilibrium coordination_game p"
  obtain x y where p: "p = (x, y)" by (cases p)
  from e p have "length x = 2" "length y = 2"
    by (simp_all add: is_equilibrium_def is_distribution_def strategies_1_def strategies_2_def
          coordination_game_def)
  then obtain a b c d where xy: "x = [a, b]" "y = [c, d]" by (auto simp: length_2)
  from coordination_equilibrium_cases [of a b c d] e p xy
  show "p \<in> {([1, 0], [1, 0]), ([0, 1], [0, 1]), ([3 / 5, 2 / 5], [2 / 5, 3 / 5])}"
    by auto
next
  assume "p \<in> {([1, 0], [1, 0]), ([0, 1], [0, 1]), ([3 / 5, 2 / 5], [2 / 5, 3 / 5])}"
  then show "is_equilibrium coordination_game p"
    by (auto simp: coordination_equilibrium_weights)
qed

section \<open>The claims\<close>

text \<open>
  Claim C1. The flag set by \<open>-D\<close> is meant to decide whether the enumeration works on the
  game as read or on the game without its dominated strategies; the usage text of the
  program announces \<open>-D\<close> as "don't eliminate dominated strategies first". The code does
  not do this: \<open>eliminate\<close> is written by the option loop and read nowhere. The theorem
  states what the code does: the case \<open>'D'\<close> of the switch only clears the flag; the \<open>try\<close>
  block is the same for both values of the flag; and a run with \<open>-D\<close> as its first
  argument is, event for event, the run without it.
\<close>

theorem C1_eliminate_flag_is_never_read:
  "enummixed_switch E a0 optarg (CHR ''D'') st = Parsed (st\<lparr>eliminate := False\<rparr>) \<and>
   enummixed_try E (st\<lparr>eliminate := b\<rparr>) s = enummixed_try E st s \<and>
   enummixed_main E (prog # ''-D'' # arg # args) = enummixed_main E (prog # arg # args)"
proof (intro conjI)
  show "enummixed_switch E a0 optarg (CHR ''D'') st = Parsed (st\<lparr>eliminate := False\<rparr>)"
    by (simp add: enummixed_switch_def)
  show "enummixed_try E (st\<lparr>eliminate := b\<rparr>) s = enummixed_try E st s"
    by (rule enummixed_try_eliminate)
  have "enummixed_options E (prog # ''-D'' # arg # args) 1 initial_options =
        enummixed_options E (prog # ''-D'' # arg # args) (Suc 1) (initial_options\<lparr>eliminate := False\<rparr>)"
    by (simp add: enummixed_options_switch char_at_def enummixed_switch_def)
  also have "\<dots> = enummixed_options E (prog # arg # args) 1 (initial_options\<lparr>eliminate := False\<rparr>)"
    by (rule enummixed_options_shift) simp
  finally have loop: "enummixed_options E (prog # ''-D'' # arg # args) 1 initial_options =
      enummixed_options E (prog # arg # args) 1 (initial_options\<lparr>eliminate := False\<rparr>)" .
  have "map_parsed (\<lambda>s. s\<lparr>eliminate := True\<rparr>)
          (enummixed_options E (prog # arg # args) 1 (initial_options\<lparr>eliminate := False\<rparr>)) =
        map_parsed (\<lambda>s. s\<lparr>eliminate := True\<rparr>)
          (enummixed_options E (prog # arg # args) 1 initial_options)"
    by (rule enummixed_options_eliminate) simp
  from enummixed_main_eliminate [OF this, of E "prog # arg # args"]
  show "enummixed_main E (prog # ''-D'' # arg # args) = enummixed_main E (prog # arg # args)"
    unfolding enummixed_main_def loop open_input_shift .
qed

text \<open>On the example environment: the run with \<open>-D\<close> and the run without it.\<close>

theorem C1_eliminate_flag_is_never_read_witness:
  "enummixed_main example_env [''enummixed'', ''-D'', ''-q'', ''game.nfg''] =
     ([Open ''game.nfg'', ReadFrom (FileStream ''game.nfg''),
       RenderRational [[1, 0], [1, 0]] ''NE'',
       RenderRational [[0, 1], [0, 1]] ''NE'',
       RenderRational [[3 / 5, 2 / 5], [2 / 5, 3 / 5]] ''NE''], ExitCode 0) \<and>
   enummixed_main example_env [''enummixed'', ''-q'', ''game.nfg''] =
     ([Open ''game.nfg'', ReadFrom (FileStream ''game.nfg''),
       RenderRational [[1, 0], [1, 0]] ''NE'',
       RenderRational [[0, 1], [0, 1]] ''NE'',
       RenderRational [[3 / 5, 2 / 5], [2 / 5, 3 / 5]] ''NE''], ExitCode 0)"
proof -
  have run: "enummixed_main example_env [''enummixed'', ''-q'', ''game.nfg''] =
     ([Open ''game.nfg'', ReadFrom (FileStream ''game.nfg''),
       RenderRational [[1, 0], [1, 0]] ''NE'',
       RenderRational [[0, 1], [0, 1]] ''NE'',
       RenderRational [[3 / 5, 2 / 5], [2 / 5, 3 / 5]] ''NE''], ExitCode 0)"
    by (simp add: enummixed_main_def option_loop_simps enummixed_switch_def initial_options_def
          open_input_def enummixed_try_def example_env_def example_profiles_def render_Rational_def
          Let_def)
  from C1_eliminate_flag_is_never_read [of example_env _ _ _ _ _ "''enummixed''" "''-q''" "[''game.nfg'']"]
  have "enummixed_main example_env [''enummixed'', ''-D'', ''-q'', ''game.nfg''] =
        enummixed_main example_env [''enummixed'', ''-q'', ''game.nfg'']"
    by simp
  with run show ?thesis by simp
qed




text \<open>
  Claim C3. Both programs take the last element of the argument vector as the path of
  the game file: \<open>optind\<close> is \<open>argc - 1\<close>, so the test \<open>optind < argc\<close> always holds.
  Standard input is never read; with no arguments the program's own name \<open>argv[0]\<close> is
  opened as the game file; a trailing \<open>-q\<close> is opened as a file, and the run exits with
  status 1 when that fails.

  In the theorem: no run calls \<open>ReadGame\<close> on \<open>std::cin\<close>; for a non-empty argument vector
  the input is the file named by its last element, or the run ends by \<open>exit(1)\<close> behind
  \<open>perror\<close>; this is what \<open>main\<close> does whenever the option loop runs through; and the two
  instances of the claim, the argument vector of length 1 and the trailing \<open>-q\<close>.
\<close>

theorem C3_final_argument_is_the_game_file:
  "ReadFrom Cin \<notin> set (fst (enummixed_main E argv)) \<and>
   ReadFrom Cin \<notin> set (fst (nfgipa_main E argv)) \<and>
   (argv \<noteq> [] \<longrightarrow>
      open_input E argv =
        (if is_open E (last argv) then Inr ([Open (last argv)], FileStream (last argv))
         else Inl ([Open (last argv), Perror (argv ! 0 @ '': '' @ last argv)], ExitCode 1))) \<and>
   (argv \<noteq> [] \<and> enummixed_options E argv 1 initial_options = Parsed st \<longrightarrow>
      enummixed_main E argv =
        (if is_open E (last argv)
         then ((if \<not> quiet st then [Stderr (PrintBanner (VERSION E))] else []) @
                 Open (last argv) # fst (enummixed_try E st (FileStream (last argv))),
               snd (enummixed_try E st (FileStream (last argv))))
         else ((if \<not> quiet st then [Stderr (PrintBanner (VERSION E))] else []) @
                 [Open (last argv), Perror (argv ! 0 @ '': '' @ last argv)], ExitCode 1))) \<and>
   (argv \<noteq> [] \<and> nfgipa_options E argv 1 ipa_initial_options = Parsed ist \<longrightarrow>
      nfgipa_main E argv =
        (if is_open E (last argv)
         then ((if \<not> ipa_quiet ist then [Stderr (ipa_PrintBanner (VERSION E))] else []) @
                 Open (last argv) # fst (nfgipa_try E ist (FileStream (last argv))),
               snd (nfgipa_try E ist (FileStream (last argv))))
         else ((if \<not> ipa_quiet ist then [Stderr (ipa_PrintBanner (VERSION E))] else []) @
                 [Open (last argv), Perror (argv ! 0 @ '': '' @ last argv)], ExitCode 1))) \<and>
   enummixed_main E [prog] =
     (if is_open E prog
      then (Stderr (PrintBanner (VERSION E)) # Open prog #
              fst (enummixed_try E initial_options (FileStream prog)),
            snd (enummixed_try E initial_options (FileStream prog)))
      else ([Stderr (PrintBanner (VERSION E)), Open prog, Perror (prog @ '': '' @ prog)],
            ExitCode 1)) \<and>
   nfgipa_main E [prog] =
     (if is_open E prog
      then (Stderr (ipa_PrintBanner (VERSION E)) # Open prog #
              fst (nfgipa_try E ipa_initial_options (FileStream prog)),
            snd (nfgipa_try E ipa_initial_options (FileStream prog)))
      else ([Stderr (ipa_PrintBanner (VERSION E)), Open prog, Perror (prog @ '': '' @ prog)],
            ExitCode 1)) \<and>
   (char_at file 0 \<noteq> CHR ''-'' \<and> \<not> is_open E ''-q'' \<longrightarrow>
      enummixed_main E [prog, file, ''-q''] = ([Open ''-q'', Perror (prog @ '': -q'')], ExitCode 1) \<and>
      nfgipa_main E [prog, file, ''-q''] = ([Open ''-q'', Perror (prog @ '': -q'')], ExitCode 1))"
proof -
  have e1: "enummixed_options E [prog] 1 initial_options = Parsed initial_options"
    by (simp add: option_loop_simps)
  have n1: "nfgipa_options E [prog] 1 ipa_initial_options = Parsed ipa_initial_options"
    by (simp add: option_loop_simps)
  have eq: "char_at file 0 \<noteq> CHR ''-'' \<Longrightarrow>
      enummixed_options E [prog, file, ''-q''] 1 initial_options =
        Parsed (initial_options\<lparr>quiet := True\<rparr>)"
    by (simp add: option_loop_simps enummixed_switch_def)
  have nq: "char_at file 0 \<noteq> CHR ''-'' \<Longrightarrow>
      nfgipa_options E [prog, file, ''-q''] 1 ipa_initial_options =
        Parsed (ipa_initial_options\<lparr>ipa_quiet := True\<rparr>)"
    by (simp add: option_loop_simps nfgipa_switch_def)
  show ?thesis
    using enummixed_main_Parsed [OF _ e1] nfgipa_main_Parsed [OF _ n1]
      enummixed_main_Parsed [OF _ eq] nfgipa_main_Parsed [OF _ nq]
    by (simp add: enummixed_main_never_Cin nfgipa_main_never_Cin open_input_last
          enummixed_main_Parsed nfgipa_main_Parsed initial_options_def ipa_initial_options_def)
qed

text \<open>On the example environment, where neither \<open>-q\<close> nor the program names can be opened.\<close>

theorem C3_final_argument_is_the_game_file_witness:
  "enummixed_main example_env [''enummixed'', ''game.nfg'', ''-q''] =
     ([Open ''-q'', Perror ''enummixed: -q''], ExitCode 1) \<and>
   nfgipa_main example_env [''nfgipa'', ''game.nfg'', ''-q''] =
     ([Open ''-q'', Perror ''nfgipa: -q''], ExitCode 1) \<and>
   enummixed_main example_env [''enummixed''] =
     ([Stderr (PrintBanner ''16.0.0''), Open ''enummixed'', Perror ''enummixed: enummixed''],
      ExitCode 1) \<and>
   nfgipa_main example_env [''nfgipa''] =
     ([Stderr (ipa_PrintBanner ''16.0.0''), Open ''nfgipa'', Perror ''nfgipa: nfgipa''],
      ExitCode 1) \<and>
   open_input example_env [''enummixed'', ''-c'', ''game.nfg''] =
     Inr ([Open ''game.nfg''], FileStream ''game.nfg'')"
  using C3_final_argument_is_the_game_file
      [of example_env "[''enummixed'', ''-c'', ''game.nfg'']" _ _ "''enummixed''" "''game.nfg''"]
    C3_final_argument_is_the_game_file
      [of example_env "[''nfgipa'', ''-c'', ''game.nfg'']" _ _ "''nfgipa''" "''game.nfg''"]
  by (simp add: example_env_def char_at_def)

text \<open>
  Claim C4. Clique output is produced only when connectedness reporting is requested
  (\<open>-c\<close>), and when produced it is a labelled sequence of profile groups: every profile of
  clique number \<open>cl\<close> (counted from 1, in partition order) is rendered with the label
  \<open>convex-\<close> followed by \<open>cl\<close>, the profiles of each clique in their stored order.

  In the theorem: the two loops of \<open>PrintCliques\<close> make exactly the \<open>Render\<close> calls of
  \<open>convex_groups\<close>; without \<open>showConnect\<close> the \<open>try\<close> block runs as it would on solutions
  whose partition is empty; \<open>showConnect\<close> is set only if some argument behind \<open>argv[0]\<close>
  starts with \<open>-c\<close>; and with \<open>showConnect\<close> the exact engine's output (rational or
  floating point) is followed by the labelled groups of the partition.
\<close>

theorem C4_clique_output:
  "PrintCliques cs = convex_groups cs \<and>
   (\<not> showConnect st \<longrightarrow> enummixed_try E st s = enummixed_try (no_cliques E) st s) \<and>
   (enummixed_options E argv 1 initial_options = Parsed st \<and> showConnect st \<longrightarrow>
      (\<exists>j. 1 \<le> j \<and> j < length argv \<and> is_option (CHR ''c'') (argv ! j))) \<and>
   (showConnect st \<and> \<not> uselrs st \<and> \<not> useFloat st \<and> ReadGame E s = Inr game \<and>
    SolveDetailed_Rational E game = (out_r, Inr cliques_r) \<longrightarrow>
      enummixed_try E st s =
        (ReadFrom s # map render_Rational out_r @ map render_Rational (convex_groups cliques_r),
         ExitCode 0)) \<and>
   (showConnect st \<and> \<not> uselrs st \<and> useFloat st \<and> ReadGame E s = Inr game \<and>
    SolveDetailed_double E game = (out_d, Inr cliques_d) \<longrightarrow>
      enummixed_try E st s =
        (ReadFrom s # map (render_double (numDecimals st)) out_d @
           map (render_double (numDecimals st)) (convex_groups cliques_d), ExitCode 0))"
proof (intro conjI impI)
  show "PrintCliques cs = convex_groups cs" by (rule PrintCliques_convex_groups)
next
  assume "\<not> showConnect st"
  then show "enummixed_try E st s = enummixed_try (no_cliques E) st s"
    by (rule enummixed_try_no_cliques)
next
  assume a: "enummixed_options E argv 1 initial_options = Parsed st \<and> showConnect st"
  then have "showConnect initial_options \<or>
      (\<exists>j. 1 \<le> j \<and> j < length argv \<and> is_option (CHR ''c'') (argv ! j))"
    using enummixed_options_showConnect [of E argv 1 initial_options st] by simp
  then show "\<exists>j. 1 \<le> j \<and> j < length argv \<and> is_option (CHR ''c'') (argv ! j)"
    by (simp add: initial_options_def)
next
  assume "showConnect st \<and> \<not> uselrs st \<and> \<not> useFloat st \<and> ReadGame E s = Inr game \<and>
    SolveDetailed_Rational E game = (out_r, Inr cliques_r)"
  then show "enummixed_try E st s =
        (ReadFrom s # map render_Rational out_r @ map render_Rational (convex_groups cliques_r),
         ExitCode 0)"
    by (simp add: enummixed_try_Rational_cliques)
next
  assume "showConnect st \<and> \<not> uselrs st \<and> useFloat st \<and> ReadGame E s = Inr game \<and>
    SolveDetailed_double E game = (out_d, Inr cliques_d)"
  then show "enummixed_try E st s =
        (ReadFrom s # map (render_double (numDecimals st)) out_d @
           map (render_double (numDecimals st)) (convex_groups cliques_d), ExitCode 0)"
    by (simp add: enummixed_try_double_cliques)
qed

text \<open>On a partition of three profiles in two cliques, and on the example environment.\<close>

theorem C4_clique_output_witness:
  "PrintCliques [[''a'', ''b''], [''c'']] =
     [(''a'', ''convex-1''), (''b'', ''convex-1''), (''c'', ''convex-2'')] \<and>
   enummixed_try example_env (initial_options\<lparr>showConnect := True\<rparr>) (FileStream ''game.nfg'') =
     ([ReadFrom (FileStream ''game.nfg''),
       RenderRational [[1, 0], [1, 0]] ''NE'',
       RenderRational [[0, 1], [0, 1]] ''NE'',
       RenderRational [[3 / 5, 2 / 5], [2 / 5, 3 / 5]] ''NE'',
       RenderRational [[1, 0], [1, 0]] ''convex-1'',
       RenderRational [[0, 1], [0, 1]] ''convex-2'',
       RenderRational [[3 / 5, 2 / 5], [2 / 5, 3 / 5]] ''convex-3''], ExitCode 0)"
proof -
  note inst = C4_clique_output
    [where cs = "[[''a'', ''b''], [''c'']]" and st = "initial_options\<lparr>showConnect := True\<rparr>"
       and E = example_env and s = "FileStream ''game.nfg''" and game = "''coordination''"
       and out_r = "map (\<lambda>p. (p, ''NE'')) example_profiles"
       and cliques_r = "map (\<lambda>p. [p]) example_profiles"]
  from inst have groups:
    "PrintCliques [[''a'', ''b''], [''c'']] = convex_groups [[''a'', ''b''], [''c'']]"
    by (rule conjunct1)
  have pre: "showConnect (initial_options\<lparr>showConnect := True\<rparr>) \<and>
      \<not> uselrs (initial_options\<lparr>showConnect := True\<rparr>) \<and>
      \<not> useFloat (initial_options\<lparr>showConnect := True\<rparr>) \<and>
      ReadGame example_env (FileStream ''game.nfg'') = Inr ''coordination'' \<and>
      SolveDetailed_Rational example_env ''coordination'' =
        (map (\<lambda>p. (p, ''NE'')) example_profiles, Inr (map (\<lambda>p. [p]) example_profiles))"
    by (simp add: initial_options_def example_env_def)
  from inst pre have run:
    "enummixed_try example_env (initial_options\<lparr>showConnect := True\<rparr>) (FileStream ''game.nfg'') =
       (ReadFrom (FileStream ''game.nfg'') #
          map render_Rational (map (\<lambda>p. (p, ''NE'')) example_profiles) @
          map render_Rational (convex_groups (map (\<lambda>p. [p]) example_profiles)), ExitCode 0)"
    by blast
  show ?thesis
    unfolding groups run
    by (simp add: convex_groups_def lexical_cast_digit digit_char_def upt_rec
          example_profiles_def render_Rational_def)
qed

text \<open>
  Claim C5, as amended. Let the option loop run through and the game file be opened. If
  \<open>ReadGame\<close> or the selected solver throws a \<open>std::runtime_error\<close>, the last thing written
  is \<open>Error: \<close> followed by its \<open>what()\<close> text and a line end, and the exit status is 1.
  If nothing is thrown, the exit status is 0 and no text starting with \<open>Error: \<close> is
  written. A run on a non-empty argument vector ends with status 0 in this way only: a run
  that ends in the option loop (\<open>-v\<close>, \<open>-h\<close>, \<open>-?\<close>) or at a file that cannot be opened
  does not end with status 0, although no failure was signalled.
\<close>

theorem C5_signalled_failures:
  "(argv \<noteq> [] \<and> enummixed_options E argv 1 initial_options = Parsed st \<and>
    is_open E (last argv) \<and>
    enummixed_signalled E st (FileStream (last argv)) = Some (RuntimeError what) \<longrightarrow>
      snd (enummixed_main E argv) = ExitCode 1 \<and>
      last (fst (enummixed_main E argv)) = Stderr (''Error: '' @ what @ endl)) \<and>
   (argv \<noteq> [] \<and> enummixed_options E argv 1 initial_options = Parsed st \<and>
    is_open E (last argv) \<and>
    enummixed_signalled E st (FileStream (last argv)) = None \<longrightarrow>
      snd (enummixed_main E argv) = ExitCode 0 \<and>
      (\<forall>t. Stderr (''Error: '' @ t) \<notin> set (fst (enummixed_main E argv)))) \<and>
   (argv \<noteq> [] \<and> nfgipa_options E argv 1 ipa_initial_options = Parsed ist \<and>
    is_open E (last argv) \<and>
    nfgipa_signalled E (FileStream (last argv)) = Some (RuntimeError what) \<longrightarrow>
      snd (nfgipa_main E argv) = ExitCode 1 \<and>
      last (fst (nfgipa_main E argv)) = Stderr (''Error: '' @ what @ endl)) \<and>
   (argv \<noteq> [] \<and> nfgipa_options E argv 1 ipa_initial_options = Parsed ist \<and>
    is_open E (last argv) \<and>
    nfgipa_signalled E (FileStream (last argv)) = None \<longrightarrow>
      snd (nfgipa_main E argv) = ExitCode 0 \<and>
      (\<forall>t. Stderr (''Error: '' @ t) \<notin> set (fst (nfgipa_main E argv)))) \<and>
   (argv \<noteq> [] \<longrightarrow>
      (snd (enummixed_main E argv) = ExitCode 0 \<longleftrightarrow>
         (\<exists>st'. enummixed_options E argv 1 initial_options = Parsed st' \<and> is_open E (last argv) \<and>
                enummixed_signalled E st' (FileStream (last argv)) = None))) \<and>
   (argv \<noteq> [] \<longrightarrow>
      (snd (nfgipa_main E argv) = ExitCode 0 \<longleftrightarrow>
         (\<exists>ist'. nfgipa_options E argv 1 ipa_initial_options = Parsed ist' \<and> is_open E (last argv) \<and>
                 nfgipa_signalled E (FileStream (last argv)) = None)))"
proof (intro conjI impI)
  assume a: "argv \<noteq> [] \<and> enummixed_options E argv 1 initial_options = Parsed st \<and>
    is_open E (last argv) \<and>
    enummixed_signalled E st (FileStream (last argv)) = Some (RuntimeError what)"
  then have m: "enummixed_main E argv =
      ((if \<not> quiet st then [Stderr (PrintBanner (VERSION E))] else []) @
         Open (last argv) # fst (enummixed_try E st (FileStream (last argv))),
       snd (enummixed_try E st (FileStream (last argv))))"
    by (simp add: enummixed_main_Parsed)
  from a enummixed_try_signalled_error [of E st "FileStream (last argv)" what]
  show "snd (enummixed_main E argv) = ExitCode 1"
    and "last (fst (enummixed_main E argv)) = Stderr (''Error: '' @ what @ endl)"
    by (simp_all add: m)
next
  assume a: "argv \<noteq> [] \<and> enummixed_options E argv 1 initial_options = Parsed st \<and>
    is_open E (last argv) \<and> enummixed_signalled E st (FileStream (last argv)) = None"
  then have m: "enummixed_main E argv =
      ((if \<not> quiet st then [Stderr (PrintBanner (VERSION E))] else []) @
         Open (last argv) # fst (enummixed_try E st (FileStream (last argv))),
       snd (enummixed_try E st (FileStream (last argv))))"
    by (simp add: enummixed_main_Parsed)
  have b: "Stderr (''Error: '' @ t) \<noteq> Stderr (PrintBanner (VERSION E))" for t
    by (simp add: PrintBanner_def)
  from a enummixed_try_signalled_none [of E st "FileStream (last argv)"]
  show "snd (enummixed_main E argv) = ExitCode 0"
    and "\<forall>t. Stderr (''Error: '' @ t) \<notin> set (fst (enummixed_main E argv))"
    using b by (simp_all add: m)
next
  assume a: "argv \<noteq> [] \<and> nfgipa_options E argv 1 ipa_initial_options = Parsed ist \<and>
    is_open E (last argv) \<and>
    nfgipa_signalled E (FileStream (last argv)) = Some (RuntimeError what)"
  then have m: "nfgipa_main E argv =
      ((if \<not> ipa_quiet ist then [Stderr (ipa_PrintBanner (VERSION E))] else []) @
         Open (last argv) # fst (nfgipa_try E ist (FileStream (last argv))),
       snd (nfgipa_try E ist (FileStream (last argv))))"
    by (simp add: nfgipa_main_Parsed)
  from a nfgipa_try_signalled_error [of E "FileStream (last argv)" what ist]
  show "snd (nfgipa_main E argv) = ExitCode 1"
    and "last (fst (nfgipa_main E argv)) = Stderr (''Error: '' @ what @ endl)"
    by (simp_all add: m)
next
  assume a: "argv \<noteq> [] \<and> nfgipa_options E argv 1 ipa_initial_options = Parsed ist \<and>
    is_open E (last argv) \<and> nfgipa_signalled E (FileStream (last argv)) = None"
  then have m: "nfgipa_main E argv =
      ((if \<not> ipa_quiet ist then [Stderr (ipa_PrintBanner (VERSION E))] else []) @
         Open (last argv) # fst (nfgipa_try E ist (FileStream (last argv))),
       snd (nfgipa_try E ist (FileStream (last argv))))"
    by (simp add: nfgipa_main_Parsed)
  have b: "Stderr (''Error: '' @ t) \<noteq> Stderr (ipa_PrintBanner (VERSION E))" for t
    by (simp add: ipa_PrintBanner_def)
  from a nfgipa_try_signalled_none [of E "FileStream (last argv)" ist]
  show "snd (nfgipa_main E argv) = ExitCode 0"
    and "\<forall>t. Stderr (''Error: '' @ t) \<notin> set (fst (nfgipa_main E argv))"
    using b by (simp_all add: m)
next
  assume "argv \<noteq> []"
  then show "snd (enummixed_main E argv) = ExitCode 0 \<longleftrightarrow>
      (\<exists>st'. enummixed_options E argv 1 initial_options = Parsed st' \<and> is_open E (last argv) \<and>
             enummixed_signalled E st' (FileStream (last argv)) = None)"
    by (rule enummixed_main_status_0)
next
  assume "argv \<noteq> []"
  then show "snd (nfgipa_main E argv) = ExitCode 0 \<longleftrightarrow>
      (\<exists>ist'. nfgipa_options E argv 1 ipa_initial_options = Parsed ist' \<and> is_open E (last argv) \<and>
              nfgipa_signalled E (FileStream (last argv)) = None)"
    by (rule nfgipa_main_status_0)
qed

text \<open>On the example environment: a file the reader rejects, and a file it accepts.\<close>

theorem C5_signalled_failures_witness:
  "snd (enummixed_main example_env [''enummixed'', ''-q'', ''broken.nfg'']) = ExitCode 1 \<and>
   last (fst (enummixed_main example_env [''enummixed'', ''-q'', ''broken.nfg''])) =
     Stderr (''Error: not a game file'' @ endl) \<and>
   snd (enummixed_main example_env [''enummixed'', ''-q'', ''game.nfg'']) = ExitCode 0 \<and>
   snd (nfgipa_main example_env [''nfgipa'', ''-q'', ''broken.nfg'']) = ExitCode 1 \<and>
   last (fst (nfgipa_main example_env [''nfgipa'', ''-q'', ''broken.nfg''])) =
     Stderr (''Error: not a game file'' @ endl) \<and>
   snd (nfgipa_main example_env [''nfgipa'', ''-q'', ''game.nfg'']) = ExitCode 0"
  using
    C5_signalled_failures
      [of "[''enummixed'', ''-q'', ''broken.nfg'']" example_env "initial_options\<lparr>quiet := True\<rparr>"
          "''not a game file''" "ipa_initial_options\<lparr>ipa_quiet := True\<rparr>"]
    C5_signalled_failures
      [of "[''enummixed'', ''-q'', ''game.nfg'']" example_env "initial_options\<lparr>quiet := True\<rparr>"
          "''not a game file''" "ipa_initial_options\<lparr>ipa_quiet := True\<rparr>"]
    C5_signalled_failures
      [of "[''nfgipa'', ''-q'', ''broken.nfg'']" example_env "initial_options\<lparr>quiet := True\<rparr>"
          "''not a game file''" "ipa_initial_options\<lparr>ipa_quiet := True\<rparr>"]
    C5_signalled_failures
      [of "[''nfgipa'', ''-q'', ''game.nfg'']" example_env "initial_options\<lparr>quiet := True\<rparr>"
          "''not a game file''" "ipa_initial_options\<lparr>ipa_quiet := True\<rparr>"]
  by (simp add: option_loop_simps enummixed_switch_def nfgipa_switch_def example_env_def
        enummixed_signalled_def nfgipa_signalled_def initial_options_def ipa_initial_options_def)

text \<open>
  The claim as it was stated, that a run without a signalled failure exits with status 0,
  fails for the runs that never reach the \<open>try\<close> block: \<open>-v\<close> writes the banner and calls
  \<open>exit(1)\<close>, and so does a run whose file cannot be opened, behind \<open>perror\<close>.
\<close>

theorem C5_exit_without_error_counterexample:
  "enummixed_main example_env [''enummixed'', ''-v''] =
     ([Stderr (PrintBanner ''16.0.0'')], ExitCode 1) \<and>
   nfgipa_main example_env [''nfgipa'', ''-v''] =
     ([Stderr (ipa_PrintBanner ''16.0.0'')], ExitCode 1) \<and>
   enummixed_main example_env [''enummixed'', ''-q'', ''missing.nfg''] =
     ([Open ''missing.nfg'', Perror ''enummixed: missing.nfg''], ExitCode 1)"
  by (simp add: enummixed_main_def nfgipa_main_def option_loop_simps enummixed_switch_def
        nfgipa_switch_def open_input_def Let_def example_env_def)

text \<open>
  Claim C7, as amended. For the coordination game with the payoff matrices
  \<open>[[3,0],[0,2]]\<close> of player 1 and \<open>[[2,0],[0,3]]\<close> of player 2, exactly three profiles
  are equilibria: the pure profiles \<open>((1,0),(1,0))\<close> and \<open>((0,1),(0,1))\<close>, and the mixed
  profile in which player 1 plays \<open>(3/5, 2/5)\<close> and player 2 plays \<open>(2/5, 3/5)\<close>.
\<close>

theorem C7_coordination_game_equilibria:
  "reported_equilibria coordination_game =
     {([1, 0], [1, 0]), ([0, 1], [0, 1]), ([3 / 5, 2 / 5], [2 / 5, 3 / 5])} \<and>
   card (reported_equilibria coordination_game) = 3"
proof -
  have eq: "reported_equilibria coordination_game =
      {([1, 0], [1, 0]), ([0, 1], [0, 1]), ([3 / 5, 2 / 5], [2 / 5, 3 / 5])}"
    unfolding reported_equilibria_def
    by (rule set_eqI) (simp only: mem_Collect_eq coordination_game_is_equilibrium)
  show ?thesis unfolding eq by simp
qed

text \<open>The three profiles are equilibria, each by its own complementarity conditions.\<close>

theorem C7_coordination_game_equilibria_witness:
  "([3 / 5, 2 / 5], [2 / 5, 3 / 5]) \<in> reported_equilibria coordination_game \<and>
   ([1, 0], [1, 0]) \<in> reported_equilibria coordination_game \<and>
   ([0, 1], [0, 1]) \<in> reported_equilibria coordination_game"
  using C7_coordination_game_equilibria by simp

text \<open>
  The mixed profile of the claim as it was stated, \<open>(2/5, 3/5)\<close> for player 1 and
  \<open>(3/5, 2/5)\<close> for player 2, is not an equilibrium: against \<open>(3/5, 2/5)\<close> the first
  strategy of player 1 pays \<open>9/5\<close> and the second \<open>4/5\<close>, yet the second would be played
  with weight \<open>3/5\<close>.
\<close>

theorem C7_swapped_weights_counterexample:
  "([2 / 5, 3 / 5], [3 / 5, 2 / 5]) \<notin> reported_equilibria coordination_game"
  by (simp add: reported_equilibria_def coordination_equilibrium_weights)

text \<open>
  Claim C9, as amended. The option switch looks at the second character of an argument
  only. An argument that starts with \<open>-\<close> and whose second character is none of the
  handled letters (\<open>v d D L h c S q ?\<close> in enummixed, \<open>v q V d S h ?\<close> in nfgipa) ends the
  run by \<open>abort()\<close>; this includes \<open>--help\<close> and \<open>--version\<close>. The branch \<open>case '?'\<close> is
  taken exactly for the arguments whose first two characters are \<open>-?\<close>, that is for \<open>-?\<close>
  itself and for every longer argument such as \<open>-?x\<close>: it writes the message about the
  unknown option \<open>-?\<close> and ends the run with status 1, and a run that ends in the option
  loop with such a message has such an argument.
\<close>

theorem C9_unhandled_options_abort:
  "(i < length argv \<and> char_at (argv ! i) 0 = CHR ''-'' \<and>
    char_at (argv ! i) 1 \<notin> set ''vdDLhcSq?'' \<longrightarrow>
      enummixed_options E argv i st = Halted [] Abort) \<and>
   (i < length argv \<and> char_at (argv ! i) 0 = CHR ''-'' \<and>
    char_at (argv ! i) 1 \<notin> set ''vqVdSh?'' \<longrightarrow>
      nfgipa_options E argv i ist = Halted [] Abort) \<and>
   (1 \<le> i \<and> i < length argv \<and> (\<forall>j. 1 \<le> j \<and> j < i \<longrightarrow> char_at (argv ! j) 0 \<noteq> CHR ''-'') \<and>
    char_at (argv ! i) 0 = CHR ''-'' \<and> char_at (argv ! i) 1 \<notin> set ''vdDLhcSq?'' \<longrightarrow>
      enummixed_main E argv = ([], Abort)) \<and>
   (1 \<le> i \<and> i < length argv \<and> (\<forall>j. 1 \<le> j \<and> j < i \<longrightarrow> char_at (argv ! j) 0 \<noteq> CHR ''-'') \<and>
    char_at (argv ! i) 0 = CHR ''-'' \<and> char_at (argv ! i) 1 \<notin> set ''vqVdSh?'' \<longrightarrow>
      nfgipa_main E argv = ([], Abort)) \<and>
   (i < length argv \<and> is_option (CHR ''?'') (argv ! i) \<longrightarrow>
      enummixed_options E argv i st =
        Halted [argv ! 0 @ '': Unknown option `-?'' @ [CHR 0x27] @ ''.'' @ endl] (ExitCode 1) \<and>
      nfgipa_options E argv i ist =
        Halted [argv ! 0 @ '': Unknown option `-?'' @ [CHR 0x27] @ ''.'' @ endl] (ExitCode 1)) \<and>
   (enummixed_options E argv 1 initial_options = Halted out how \<and>
    unknown_option a0 c \<in> set out \<longrightarrow>
      (\<exists>j. 1 \<le> j \<and> j < length argv \<and> is_option (CHR ''?'') (argv ! j))) \<and>
   (nfgipa_options E argv 1 ipa_initial_options = Halted out how \<and>
    unknown_option a0 c \<in> set out \<longrightarrow>
      (\<exists>j. 1 \<le> j \<and> j < length argv \<and> is_option (CHR ''?'') (argv ! j)))"
proof (intro conjI impI)
  assume "i < length argv \<and> char_at (argv ! i) 0 = CHR ''-'' \<and>
    char_at (argv ! i) 1 \<notin> set ''vdDLhcSq?''"
  then show "enummixed_options E argv i st = Halted [] Abort"
    by (simp add: enummixed_options_switch enummixed_switch_Abort)
next
  assume "i < length argv \<and> char_at (argv ! i) 0 = CHR ''-'' \<and>
    char_at (argv ! i) 1 \<notin> set ''vqVdSh?''"
  then show "nfgipa_options E argv i ist = Halted [] Abort"
    by (simp add: nfgipa_options_switch nfgipa_switch_Abort)
next
  assume a: "1 \<le> i \<and> i < length argv \<and>
    (\<forall>j. 1 \<le> j \<and> j < i \<longrightarrow> char_at (argv ! j) 0 \<noteq> CHR ''-'') \<and>
    char_at (argv ! i) 0 = CHR ''-'' \<and> char_at (argv ! i) 1 \<notin> set ''vdDLhcSq?''"
  then have "enummixed_options E argv 1 initial_options = enummixed_options E argv i initial_options"
    by (intro enummixed_options_skip_to) auto
  with a show "enummixed_main E argv = ([], Abort)"
    by (simp add: enummixed_main_def enummixed_options_switch enummixed_switch_Abort)
next
  assume a: "1 \<le> i \<and> i < length argv \<and>
    (\<forall>j. 1 \<le> j \<and> j < i \<longrightarrow> char_at (argv ! j) 0 \<noteq> CHR ''-'') \<and>
    char_at (argv ! i) 0 = CHR ''-'' \<and> char_at (argv ! i) 1 \<notin> set ''vqVdSh?''"
  then have "nfgipa_options E argv 1 ipa_initial_options = nfgipa_options E argv i ipa_initial_options"
    by (intro nfgipa_options_skip_to) auto
  with a show "nfgipa_main E argv = ([], Abort)"
    by (simp add: nfgipa_main_def nfgipa_options_switch nfgipa_switch_Abort)
next
  assume a: "i < length argv \<and> is_option (CHR ''?'') (argv ! i)"
  then show "enummixed_options E argv i st =
      Halted [argv ! 0 @ '': Unknown option `-?'' @ [CHR 0x27] @ ''.'' @ endl] (ExitCode 1)"
    by (simp add: enummixed_options_switch is_option_def enummixed_switch_def
          unknown_option_question)
  from a show "nfgipa_options E argv i ist =
      Halted [argv ! 0 @ '': Unknown option `-?'' @ [CHR 0x27] @ ''.'' @ endl] (ExitCode 1)"
    by (simp add: nfgipa_options_switch is_option_def nfgipa_switch_def
          unknown_option_question)
next
  assume "enummixed_options E argv 1 initial_options = Halted out how \<and>
    unknown_option a0 c \<in> set out"
  then show "\<exists>j. 1 \<le> j \<and> j < length argv \<and> is_option (CHR ''?'') (argv ! j)"
    using enummixed_options_unknown [of E argv 1 initial_options out how a0 c] by simp
next
  assume "nfgipa_options E argv 1 ipa_initial_options = Halted out how \<and>
    unknown_option a0 c \<in> set out"
  then show "\<exists>j. 1 \<le> j \<and> j < length argv \<and> is_option (CHR ''?'') (argv ! j)"
    using nfgipa_options_unknown [of E argv 1 ipa_initial_options out how a0 c] by simp
qed

text \<open>On the example environment: long options, an unknown letter, and \<open>-?\<close>.\<close>

theorem C9_unhandled_options_abort_witness:
  "enummixed_main example_env [''enummixed'', ''--help''] = ([], Abort) \<and>
   enummixed_main example_env [''enummixed'', ''game.nfg'', ''--version''] = ([], Abort) \<and>
   nfgipa_main example_env [''nfgipa'', ''--help''] = ([], Abort) \<and>
   nfgipa_main example_env [''nfgipa'', ''-c'', ''game.nfg''] = ([], Abort) \<and>
   enummixed_options example_env [''enummixed'', ''-?''] 1 initial_options =
     Halted [''enummixed: Unknown option `-?'' @ [CHR 0x27] @ ''.'' @ endl] (ExitCode 1)"
proof -
  have none: "\<forall>j. 1 \<le> j \<and> j < (1::nat) \<longrightarrow> P j" for P by simp
  have one: "\<forall>j. 1 \<le> j \<and> j < (2::nat) \<longrightarrow> char_at ([p, ''game.nfg'', a] ! j) 0 \<noteq> CHR ''-''" for p a
  proof (intro allI impI)
    fix j :: nat
    assume "1 \<le> j \<and> j < 2"
    then have "j = 1" by simp
    then show "char_at ([p, ''game.nfg'', a] ! j) 0 \<noteq> CHR ''-''" by (simp add: char_at_def)
  qed
  from C9_unhandled_options_abort [of 1 "[''enummixed'', ''--help'']" example_env] none
  have 1: "enummixed_main example_env [''enummixed'', ''--help''] = ([], Abort)"
    by (simp add: char_at_def)
  from C9_unhandled_options_abort [of 2 "[''enummixed'', ''game.nfg'', ''--version'']" example_env]
    one [of "''enummixed''" "''--version''"]
  have 2: "enummixed_main example_env [''enummixed'', ''game.nfg'', ''--version''] = ([], Abort)"
    by (simp add: char_at_def)
  from C9_unhandled_options_abort [of 1 "[''nfgipa'', ''--help'']" example_env] none
  have 3: "nfgipa_main example_env [''nfgipa'', ''--help''] = ([], Abort)"
    by (simp add: char_at_def)
  from C9_unhandled_options_abort [of 1 "[''nfgipa'', ''-c'', ''game.nfg'']" example_env] none
  have 4: "nfgipa_main example_env [''nfgipa'', ''-c'', ''game.nfg''] = ([], Abort)"
    by (simp add: char_at_def)
  from C9_unhandled_options_abort [of 1 "[''enummixed'', ''-?'']" example_env initial_options]
  have 5: "enummixed_options example_env [''enummixed'', ''-?''] 1 initial_options =
     Halted [''enummixed: Unknown option `-?'' @ [CHR 0x27] @ ''.'' @ endl] (ExitCode 1)"
    by (simp add: is_option_def char_at_def)
  from 1 2 3 4 5 show ?thesis by simp
qed

text \<open>
  The claim as it was stated, that only the argument \<open>-?\<close> reaches the branch, fails for
  \<open>-?x\<close>: the run writes the same message and ends with status 1.
\<close>

theorem C9_longer_argument_counterexample:
  "enummixed_main example_env [''enummixed'', ''-?x'', ''game.nfg''] =
     ([Stderr (''enummixed: Unknown option `-?'' @ [CHR 0x27] @ ''.'' @ endl)], ExitCode 1) \<and>
   nfgipa_main example_env [''nfgipa'', ''-?x'', ''game.nfg''] =
     ([Stderr (''nfgipa: Unknown option `-?'' @ [CHR 0x27] @ ''.'' @ endl)], ExitCode 1) \<and>
   ''-?x'' \<noteq> ''-?''"
  by (simp add: enummixed_main_def nfgipa_main_def option_loop_simps enummixed_switch_def
        nfgipa_switch_def unknown_option_question)

text \<open>
  Claim C10. When an argument starting with \<open>-d\<close> is the last one, \<open>optarg\<close> is
  \<open>argv[argc]\<close>, the null pointer that ends the argument vector, and it is passed to
  \<open>atoi\<close>. When every argument behind \<open>argv[0]\<close> that starts with \<open>-d\<close> is followed by a
  further argument, no run calls \<open>atoi\<close> on the null pointer.

  In the theorem: \<open>argv[i + 1]\<close> is the null pointer at the last argument, whatever it is
  (only the case \<open>'d'\<close> uses it); the iteration of either loop at a last argument that
  starts with \<open>-d\<close> ends the run by
  \<open>atoi(NULL)\<close>; so does \<open>main\<close> when no earlier argument starts with \<open>-\<close>; and under the
  precondition neither \<open>main\<close> nor its option loop ends that way.
\<close>

theorem C10_atoi_of_null_pointer:
  "(Suc i = length argv \<longrightarrow> argv_at argv (Suc i) = None) \<and>
   (1 \<le> i \<and> Suc i = length argv \<and> is_option (CHR ''d'') (argv ! i) \<longrightarrow>
      enummixed_options E argv i st = Halted [] AtoiNull \<and>
      nfgipa_options E argv i ist = Halted [] AtoiNull) \<and>
   (1 \<le> i \<and> Suc i = length argv \<and> is_option (CHR ''d'') (argv ! i) \<and>
    (\<forall>j. 1 \<le> j \<and> j < i \<longrightarrow> char_at (argv ! j) 0 \<noteq> CHR ''-'') \<longrightarrow>
      enummixed_main E argv = ([], AtoiNull) \<and> nfgipa_main E argv = ([], AtoiNull)) \<and>
   ((\<forall>j. 1 \<le> j \<and> j < length argv \<and> is_option (CHR ''d'') (argv ! j) \<longrightarrow> Suc j < length argv) \<longrightarrow>
      snd (enummixed_main E argv) \<noteq> AtoiNull \<and> snd (nfgipa_main E argv) \<noteq> AtoiNull \<and>
      (\<forall>out. enummixed_options E argv 1 st \<noteq> Halted out AtoiNull) \<and>
      (\<forall>out. nfgipa_options E argv 1 ist \<noteq> Halted out AtoiNull))"
proof (intro conjI impI)
  assume "Suc i = length argv"
  then show "argv_at argv (Suc i) = None" by (simp add: argv_at_def)
next
  assume a: "1 \<le> i \<and> Suc i = length argv \<and> is_option (CHR ''d'') (argv ! i)"
  then show "enummixed_options E argv i st = Halted [] AtoiNull"
    by (simp add: enummixed_options_last_d)
  from a show "nfgipa_options E argv i ist = Halted [] AtoiNull"
    by (simp add: nfgipa_options_last_d)
next
  assume a: "1 \<le> i \<and> Suc i = length argv \<and> is_option (CHR ''d'') (argv ! i) \<and>
    (\<forall>j. 1 \<le> j \<and> j < i \<longrightarrow> char_at (argv ! j) 0 \<noteq> CHR ''-'')"
  then have "enummixed_options E argv 1 initial_options = enummixed_options E argv i initial_options"
    by (intro enummixed_options_skip_to) auto
  with a show "enummixed_main E argv = ([], AtoiNull)"
    by (simp add: enummixed_main_def enummixed_options_last_d)
  from a have "nfgipa_options E argv 1 ipa_initial_options = nfgipa_options E argv i ipa_initial_options"
    by (intro nfgipa_options_skip_to) auto
  with a show "nfgipa_main E argv = ([], AtoiNull)"
    by (simp add: nfgipa_main_def nfgipa_options_last_d)
next
  assume a: "\<forall>j. 1 \<le> j \<and> j < length argv \<and> is_option (CHR ''d'') (argv ! j) \<longrightarrow> Suc j < length argv"
  then have e: "enummixed_options E argv 1 st' \<noteq> Halted out AtoiNull" for st' out
    by (intro enummixed_options_no_AtoiNull) auto
  from a have n: "nfgipa_options E argv 1 st' \<noteq> Halted out AtoiNull" for st' out
    by (intro nfgipa_options_no_AtoiNull) auto
  from e show "snd (enummixed_main E argv) \<noteq> AtoiNull"
    using enummixed_main_status_AtoiNull [of E argv] by auto
  from n show "snd (nfgipa_main E argv) \<noteq> AtoiNull"
    using nfgipa_main_status_AtoiNull [of E argv] by auto
  from e show "\<forall>out. enummixed_options E argv 1 st \<noteq> Halted out AtoiNull" by simp
  from n show "\<forall>out. nfgipa_options E argv 1 ist \<noteq> Halted out AtoiNull" by simp
qed

text \<open>On the example environment: \<open>-d\<close> last, and \<open>-d 3\<close> before the file.\<close>

theorem C10_atoi_of_null_pointer_witness:
  "enummixed_main example_env [''enummixed'', ''game.nfg'', ''-d''] = ([], AtoiNull) \<and>
   nfgipa_main example_env [''nfgipa'', ''game.nfg'', ''-d''] = ([], AtoiNull) \<and>
   snd (enummixed_main example_env [''enummixed'', ''-q'', ''-d'', ''3'', ''game.nfg'']) \<noteq> AtoiNull \<and>
   snd (nfgipa_main example_env [''nfgipa'', ''-q'', ''-d'', ''3'', ''game.nfg'']) \<noteq> AtoiNull"
proof -
  have last_d: "is_option (CHR ''d'') ([p, ''game.nfg'', ''-d''] ! 2)" for p
    by (simp add: is_option_def char_at_def)
  have before: "\<forall>j. 1 \<le> j \<and> j < 2 \<longrightarrow> char_at ([p, ''game.nfg'', ''-d''] ! j) 0 \<noteq> CHR ''-''" for p
  proof (intro allI impI)
    fix j :: nat
    assume "1 \<le> j \<and> j < 2"
    then have "j = 1" by simp
    then show "char_at ([p, ''game.nfg'', ''-d''] ! j) 0 \<noteq> CHR ''-''"
      by (simp add: char_at_def)
  qed
  have followed: "\<forall>j. 1 \<le> j \<and> j < length [p, ''-q'', ''-d'', ''3'', ''game.nfg''] \<and>
      is_option (CHR ''d'') ([p, ''-q'', ''-d'', ''3'', ''game.nfg''] ! j) \<longrightarrow>
      Suc j < length [p, ''-q'', ''-d'', ''3'', ''game.nfg'']" for p
  proof (intro allI impI)
    fix j :: nat
    assume a: "1 \<le> j \<and> j < length [p, ''-q'', ''-d'', ''3'', ''game.nfg''] \<and>
      is_option (CHR ''d'') ([p, ''-q'', ''-d'', ''3'', ''game.nfg''] ! j)"
    have "j \<noteq> 4"
    proof
      assume "j = 4"
      with a show False by (simp add: is_option_def char_at_def)
    qed
    with a show "Suc j < length [p, ''-q'', ''-d'', ''3'', ''game.nfg'']" by simp
  qed
  from C10_atoi_of_null_pointer [of 2 "[''enummixed'', ''game.nfg'', ''-d'']" example_env]
    last_d [of "''enummixed''"] before [of "''enummixed''"]
  have 1: "enummixed_main example_env [''enummixed'', ''game.nfg'', ''-d''] = ([], AtoiNull)"
    by simp
  from C10_atoi_of_null_pointer [of 2 "[''nfgipa'', ''game.nfg'', ''-d'']" example_env]
    last_d [of "''nfgipa''"] before [of "''nfgipa''"]
  have 2: "nfgipa_main example_env [''nfgipa'', ''game.nfg'', ''-d''] = ([], AtoiNull)"
    by simp
  from C10_atoi_of_null_pointer [of _ "[''enummixed'', ''-q'', ''-d'', ''3'', ''game.nfg'']" example_env]
    followed [of "''enummixed''"]
  have 3: "snd (enummixed_main example_env [''enummixed'', ''-q'', ''-d'', ''3'', ''game.nfg'']) \<noteq> AtoiNull"
    by blast
  from C10_atoi_of_null_pointer [of _ "[''nfgipa'', ''-q'', ''-d'', ''3'', ''game.nfg'']" example_env]
    followed [of "''nfgipa''"]
  have 4: "snd (nfgipa_main example_env [''nfgipa'', ''-q'', ''-d'', ''3'', ''game.nfg'']) \<noteq> AtoiNull"
    by blast
  from 1 2 3 4 show ?thesis by simp
qed

end
